theory Spec2Isabelle
  imports Main
begin

section \<open>Initialization and assignment checks of types2 (assignments.go)\<close>

text \<open>
  A shallow embedding of \<^verbatim>\<open>src/cmd/compile/internal/types2/assignments.go\<close>.
  The checker's mutable state (reported errors, recorded expression types and
  values, the objects reached through pointers) is a record that every operation
  takes and returns. Operands are passed by value and returned updated; variables
  are reached through addresses into a store, because several targets of one
  statement may be the same object.
\<close>

subsection \<open>Types\<close>

text \<open>
  Modelled from the spec: the declarations of \<^verbatim>\<open>Type\<close>, \<^verbatim>\<open>Basic\<close> and the
  table \<^verbatim>\<open>Typ\<close> are outside the source file. The spec's data model classifies
  a type as an untyped-constant kind (boolean, rune, integer, floating-point,
  complex, string, nil), an interface (type-parameter bound or not), a
  signature with a count of own type parameters, a tuple, a slice, or the
  invalid sentinel (\<^verbatim>\<open>Int\<close> carries a suffix). \<open>Basic k\<close> is \<^verbatim>\<open>Typ[k]\<close>;
  a \<^verbatim>\<open>nil\<close> type is \<open>None\<close> of \<open>Type option\<close>.
\<close>

datatype BasicKind =
    Invalid
  | Bool | Int_kind | Int32 | Float64 | Complex128 | String
  | UntypedBool | UntypedInt | UntypedRune | UntypedFloat | UntypedComplex
  | UntypedString | UntypedNil

datatype Type =
    Basic BasicKind
  | Named string Type
  | Interface "string list"
  | TypeParam string Type
  | Signature nat Type Type
  | Tuple "Type list"
  | Slice Type

text \<open>
  Modelled from the spec: \<^verbatim>\<open>isUntyped\<close> holds exactly of the untyped-constant
  kinds, which are basic types.
\<close>

fun isUntyped :: "Type \<Rightarrow> bool" where
  "isUntyped (Basic k) =
     (k = UntypedBool \<or> k = UntypedInt \<or> k = UntypedRune \<or> k = UntypedFloat \<or>
      k = UntypedComplex \<or> k = UntypedString \<or> k = UntypedNil)"
| "isUntyped _ = False"

text \<open>
  Modelled from the spec: the default-type table for literal constants. The comment in
  \<^verbatim>\<open>assignment\<close> lists the targets: bool, rune, int, float64, complex128, string.
  Every other type, untyped nil included, is its own default.
\<close>

fun Default :: "Type \<Rightarrow> Type" where
  "Default (Basic UntypedBool) = Basic Bool"
| "Default (Basic UntypedInt) = Basic Int_kind"
| "Default (Basic UntypedRune) = Basic Int32"
| "Default (Basic UntypedFloat) = Basic Float64"
| "Default (Basic UntypedComplex) = Basic Complex128"
| "Default (Basic UntypedString) = Basic String"
| "Default t = t"

text \<open>
  Modelled from the spec: \<^verbatim>\<open>under\<close> gives the underlying type; a named type
  stands for the type it was declared as, a type parameter for its bound.
\<close>

fun under :: "Type \<Rightarrow> Type" where
  "under (Named n t) = under t"
| "under (TypeParam n t) = under t"
| "under t = t"

fun isTypeParam :: "Type \<Rightarrow> bool" where
  "isTypeParam (TypeParam n t) = True"
| "isTypeParam _ = False"

fun IsInterface :: "Type \<Rightarrow> bool" where
  "IsInterface t = (case under t of Interface ms \<Rightarrow> True | _ \<Rightarrow> False)"

text \<open>Modelled from the spec: an interface that is not a type-parameter bound.\<close>

definition isNonTypeParamInterface :: "Type \<Rightarrow> bool" where
  "isNonTypeParamInterface t = (\<not> isTypeParam t \<and> IsInterface t)"

text \<open>
  Modelled from the spec: the numeric untyped kinds are the ones rendered as
  \<^verbatim>\<open>number\<close> in a type summary; the typed numeric basic types are numeric too.
\<close>

fun isNumeric :: "Type \<Rightarrow> bool" where
  "isNumeric t =
     (case under t of
        Basic k \<Rightarrow> k = Int_kind \<or> k = Int32 \<or> k = Float64 \<or> k = Complex128 \<or>
                   k = UntypedInt \<or> k = UntypedRune \<or> k = UntypedFloat \<or> k = UntypedComplex
      | _ \<Rightarrow> False)"

text \<open>Modelled from the spec: the name field of a basic type.\<close>

fun basic_name :: "BasicKind \<Rightarrow> string" where
  "basic_name Invalid = ''invalid type''"
| "basic_name Bool = ''bool''"
| "basic_name Int_kind = ''int''"
| "basic_name Int32 = ''int32''"
| "basic_name Float64 = ''float64''"
| "basic_name Complex128 = ''complex128''"
| "basic_name String = ''string''"
| "basic_name UntypedBool = ''untyped bool''"
| "basic_name UntypedInt = ''untyped int''"
| "basic_name UntypedRune = ''untyped rune''"
| "basic_name UntypedFloat = ''untyped float''"
| "basic_name UntypedComplex = ''untyped complex''"
| "basic_name UntypedString = ''untyped string''"
| "basic_name UntypedNil = ''untyped nil''"

subsection \<open>Syntax, operands, objects\<close>

text \<open>
  Modelled from the spec: the expression tree comes from the parser, outside the source
  file. Only the node kinds the file tests for are distinguished.
\<close>

datatype Expr =
    Name string
  | ParenExpr Expr
  | SelectorExpr Expr Expr
  | CallExpr Expr "Expr list"
  | ListExpr "Expr list"
  | BasicLit string
  | IndexExpr Expr Expr
  | FuncLit nat

datatype Stmt = ReturnStmt "Expr list"

datatype Pos = nopos | Pos_of Expr | EndPos Expr

fun unparen :: "Expr \<Rightarrow> Expr" where
  "unparen (ParenExpr e) = unparen e"
| "unparen e = e"

text \<open>
  Modelled from the spec: the operand modes. The source file names \<^verbatim>\<open>invalid\<close> and
  the seven assignable modes; the remaining modes of the declaration (no value, built-in,
  type expression, cgo function) are the ones that reach the default branch of the mode
  switch. \<^verbatim>\<open>constant_\<close> and \<^verbatim>\<open>value\<close> carry a suffix here.
\<close>

datatype operandMode =
    invalid | novalue | builtin | typexpr
  | constant_mode | variable | mapindex | value_mode | nilvalue | commaok | commaerr
  | cgofunc

datatype constant_Value = BoolVal bool | StringVal string | IntVal int

record operand =
  opd_mode :: operandMode
  opd_typ :: Type
  opd_val :: "constant_Value option"
  opd_expr :: Expr

text \<open>Modelled from the spec: the nil literal is the operand in mode \<^verbatim>\<open>nilvalue\<close>.\<close>

definition isNil :: "operand \<Rightarrow> bool" where
  "isNil x = (opd_mode x = nilvalue)"

record Var =
  var_name :: string
  var_pkg :: nat
  var_typ :: "Type option"
  var_used :: bool
  var_pos :: Pos

record Const =
  const_typ :: "Type option"
  const_val :: "constant_Value option"

datatype Object =
    VarObj nat
  | ConstObj nat
  | TypeNameObj nat
  | FuncObj nat
  | PkgNameObj nat
  | BuiltinObj nat
  | NilObj

subsection \<open>Errors\<close>

datatype Code =
    Code_0
  | IncompatibleAssign | UntypedNilUse | TruncatedFloat | NumericOverflow
  | WrongTypeArgCount | InvalidConstInit | UnaddressableFieldAssign
  | UnassignableOperand | WrongAssignCount | WrongResultCount
  | BadDecl | RepeatedDecl | NoNewVar | InvalidUntypedConversion | TooManyValues
  | DuplicateDecl

datatype poser = At_operand operand | At_Expr Expr | At_Stmt Stmt | At_Pos Pos

datatype arg =
    A_operand operand
  | A_Type "Type option"
  | A_Expr Expr
  | A_string string
  | A_int int

text \<open>
  An \<^verbatim>\<open>error_\<close> is one diagnostic: a code and the list of (position, message)
  parts that \<^verbatim>\<open>err.errorf\<close> appended to it.
\<close>

record error_ =
  err_code :: Code
  err_soft :: bool
  err_desc :: "(poser \<times> string) list"

subsection \<open>Checker state\<close>

record Checker =
  pkg :: nat
  errors :: "error_ list"
  exprVals :: "(Expr \<times> constant_Value) list"
  exprTypes :: "(Expr \<times> Type \<times> bool) list"
  store :: "nat \<Rightarrow> Var"
  next_var :: nat
  scope :: "string \<Rightarrow> Object option"
  defs :: "(Expr \<times> Object option) list"
  uses :: "(Expr \<times> Object) list"
  commaOkTypes :: "(Expr \<times> Type option \<times> Type option) list"
  delayed :: "nat list"

text \<open>
  The functions of the package that the source file calls and that are defined in other
  files are parameters: every theorem holds for any choice of them.
  \<^item> \<open>singleValue\<close>: single-value reduction of an operand; may report.
  \<^item> \<open>implicitTypeAndValue\<close>: conversion of an untyped operand to a target;
    returns the new type, an optional new value and an error code (\<open>Code_0\<close> for none).
  \<^item> \<open>assignableTo\<close>: the assignability oracle; returns the verdict, a code and a cause.
  \<^item> \<open>isConstType\<close>, \<open>sprintf\<close>, \<open>fmt_Sprintf\<close>, \<open>syntax_String\<close>: pure helpers.
  \<^item> \<open>check_expr\<close>, \<open>exprList\<close>, \<open>use\<close>: the expression evaluator.
  \<^item> \<open>lookup\<close>: name lookup along the scope chain.
  \<^item> \<open>processDelayed\<close>, \<open>declare_obj\<close>: deferred actions, and \<^verbatim>\<open>check.declare\<close> of a
    variable (by address) into the current scope.
\<close>

record Env =
  singleValue :: "Checker \<Rightarrow> operand \<Rightarrow> operand \<times> Checker"
  implicitTypeAndValue :: "Checker \<Rightarrow> operand \<Rightarrow> Type option \<Rightarrow> Type \<times> constant_Value option \<times> Code"
  assignableTo :: "Checker \<Rightarrow> operand \<Rightarrow> Type \<Rightarrow> bool \<times> Code \<times> string"
  isConstType :: "Type \<Rightarrow> bool"
  sprintf :: "string \<Rightarrow> arg list \<Rightarrow> string"
  check_expr :: "Checker \<Rightarrow> Expr \<Rightarrow> operand \<times> Checker"
  exprList :: "Checker \<Rightarrow> Expr list \<Rightarrow> bool \<Rightarrow> (operand list \<times> bool) \<times> Checker"
  use :: "Checker \<Rightarrow> Expr list \<Rightarrow> Checker"
  lookup :: "Checker \<Rightarrow> string \<Rightarrow> Object option"
  processDelayed :: "Checker \<Rightarrow> nat \<Rightarrow> Checker"
  declare_obj :: "Checker \<Rightarrow> nat \<Rightarrow> Pos \<Rightarrow> Checker"
  syntax_String :: "Expr \<Rightarrow> string"
  fmt_Sprintf :: "string \<Rightarrow> arg list \<Rightarrow> string"

text \<open>
  Modelled from the spec: the error-reporting sink accepts a position, an error kind and
  a message, and has a soft variant. Each call hands one diagnostic to the sink.
\<close>

definition report :: "Checker \<Rightarrow> error_ \<Rightarrow> Checker" where
  "report check err = check\<lparr>errors := errors check @ [err]\<rparr>"

definition check_error :: "Checker \<Rightarrow> poser \<Rightarrow> Code \<Rightarrow> string \<Rightarrow> Checker" where
  "check_error check at c msg = report check \<lparr>err_code = c, err_soft = False, err_desc = [(at, msg)]\<rparr>"

definition errorf :: "Env \<Rightarrow> Checker \<Rightarrow> poser \<Rightarrow> Code \<Rightarrow> string \<Rightarrow> arg list \<Rightarrow> Checker" where
  "errorf E check at c format args = check_error check at c (sprintf E format args)"

definition softErrorf :: "Env \<Rightarrow> Checker \<Rightarrow> poser \<Rightarrow> Code \<Rightarrow> string \<Rightarrow> arg list \<Rightarrow> Checker" where
  "softErrorf E check at c format args =
     report check \<lparr>err_code = c, err_soft = True, err_desc = [(at, sprintf E format args)]\<rparr>"

text \<open>
  Modelled from the spec: a changed value or type is propagated to the originating
  expression's recorded table.
\<close>

definition updateExprVal :: "Checker \<Rightarrow> Expr \<Rightarrow> constant_Value \<Rightarrow> Checker" where
  "updateExprVal check e v = check\<lparr>exprVals := exprVals check @ [(e, v)]\<rparr>"

definition updateExprType :: "Checker \<Rightarrow> Expr \<Rightarrow> Type \<Rightarrow> bool \<Rightarrow> Checker" where
  "updateExprType check e t final = check\<lparr>exprTypes := exprTypes check @ [(e, t, final)]\<rparr>"

definition recordDef :: "Checker \<Rightarrow> Expr \<Rightarrow> Object option \<Rightarrow> Checker" where
  "recordDef check ident obj = check\<lparr>defs := defs check @ [(ident, obj)]\<rparr>"

definition recordUse :: "Checker \<Rightarrow> Expr \<Rightarrow> Object \<Rightarrow> Checker" where
  "recordUse check ident obj = check\<lparr>uses := uses check @ [(ident, obj)]\<rparr>"

definition recordCommaOkTypes :: "Checker \<Rightarrow> Expr \<Rightarrow> Type option \<times> Type option \<Rightarrow> Checker" where
  "recordCommaOkTypes check e a = check\<lparr>commaOkTypes := commaOkTypes check @ [(e, a)]\<rparr>"

subsection \<open>assignment\<close>

definition assignable_modes :: "operandMode list" where
  "assignable_modes = [constant_mode, variable, mapindex, value_mode, nilvalue, commaok, commaerr]"

text \<open>
  The conversion target of the untyped branch: \<^verbatim>\<open>target := T\<close>, replaced by the
  default type when the operand is not nil and \<^verbatim>\<open>T\<close> is nil or a non-type-parameter
  interface.
\<close>

definition conversion_target :: "operand \<Rightarrow> Type option \<Rightarrow> Type option" where
  "conversion_target x T =
     (if isNil x then T
      else case T of
             None \<Rightarrow> Some (Default (opd_typ x))
           | Some t \<Rightarrow> if isNonTypeParamInterface t then Some (Default (opd_typ x)) else T)"

text \<open>
  The untyped branch of \<^verbatim>\<open>assignment\<close> (the body of \<^verbatim>\<open>if isUntyped(x.typ)\<close>).
  \<open>Inl\<close> is an early \<^verbatim>\<open>return\<close> with the operand and checker at that point,
  \<open>Inr\<close> falls through to the rest of the function.
\<close>

definition assignment_untyped ::
  "Env \<Rightarrow> Checker \<Rightarrow> operand \<Rightarrow> Type option \<Rightarrow> string \<Rightarrow> (operand \<times> Checker) + (operand \<times> Checker)" where
  "assignment_untyped E check x T context =
     (if isNil x \<and> T = None then
        Inl (x\<lparr>opd_mode := invalid\<rparr>,
             errorf E check (At_operand x) UntypedNilUse ''use of untyped nil in %s''
               [A_string context])
      else
        let target = conversion_target x T in
        case implicitTypeAndValue E check x target of
          (newType, v, c) \<Rightarrow>
            if c \<noteq> Code_0 then
              let msg = sprintf E ''cannot use %s as %s value in %s''
                          [A_operand x, A_Type target, A_string context]
              in Inl (x\<lparr>opd_mode := invalid\<rparr>,
                      if c = TruncatedFloat then
                        check_error check (At_operand x) c (msg @ '' (truncated)'')
                      else if c = NumericOverflow then
                        check_error check (At_operand x) c (msg @ '' (overflows)'')
                      else check_error check (At_operand x) IncompatibleAssign msg)
            else
              let x1 = (case v of None \<Rightarrow> x | Some v' \<Rightarrow> x\<lparr>opd_val := Some v'\<rparr>);
                  check1 = (case v of None \<Rightarrow> check
                            | Some v' \<Rightarrow> updateExprVal check (opd_expr x) v')
              in if newType \<noteq> opd_typ x1
                 then Inr (x1\<lparr>opd_typ := newType\<rparr>,
                           updateExprType check1 (opd_expr x1) newType False)
                 else Inr (x1, check1))"

text \<open>The check for a generic function value: reported, the operand is left as it is.\<close>

definition generic_check :: "Env \<Rightarrow> Checker \<Rightarrow> operand \<Rightarrow> string \<Rightarrow> Checker" where
  "generic_check E check x context =
     (case under (opd_typ x) of
        Signature n ps rs \<Rightarrow>
          if n > 0 then
            errorf E check (At_operand x) WrongTypeArgCount
              ''cannot use generic function %s without instantiation in %s''
              [A_operand x, A_string context]
          else check
      | _ \<Rightarrow> check)"

text \<open>The end of \<^verbatim>\<open>assignment\<close>: the return for a nil target, else the assignability check.\<close>

definition assignable_check ::
  "Env \<Rightarrow> Checker \<Rightarrow> operand \<Rightarrow> Type option \<Rightarrow> string \<Rightarrow> operand \<times> Checker" where
  "assignable_check E check x T context =
     (case T of
        None \<Rightarrow> (x, check)
      | Some T' \<Rightarrow>
          (case assignableTo E check x T' of
             (ok, c, cause) \<Rightarrow>
               if \<not> ok then
                 (x\<lparr>opd_mode := invalid\<rparr>,
                  if cause \<noteq> [] then
                    errorf E check (At_operand x) c ''cannot use %s as %s value in %s: %s''
                      [A_operand x, A_Type T, A_string context, A_string cause]
                  else
                    errorf E check (At_operand x) c ''cannot use %s as %s value in %s''
                      [A_operand x, A_Type T, A_string context])
               else (x, check)))"

text \<open>\<^verbatim>\<open>assignment\<close> returns the updated operand and checker.\<close>

definition assignment :: "Env \<Rightarrow> Checker \<Rightarrow> operand \<Rightarrow> Type option \<Rightarrow> string \<Rightarrow> operand \<times> Checker" where
  "assignment E check0 x0 T context =
     (case singleValue E check0 x0 of
        (x, check) \<Rightarrow>
          if opd_mode x = invalid then (x, check)
          else if opd_mode x \<notin> set assignable_modes then
            (x, errorf E check (At_operand x) IncompatibleAssign ''cannot assign %s to %s in %s''
                  [A_operand x, A_Type T, A_string context])
          else
            (case (if isUntyped (opd_typ x) then assignment_untyped E check x T context
                   else Inr (x, check)) of
               Inl r \<Rightarrow> r
             | Inr (x', check') \<Rightarrow>
                 assignable_check E (generic_check E check' x' context) x' T context))"

subsection \<open>initConst, initVar\<close>

datatype panic = AssertionFailed | IndexOutOfRange | TypeAssertionFailed

definition set_typ :: "Checker \<Rightarrow> nat \<Rightarrow> Type option \<Rightarrow> Checker" where
  "set_typ check a t = check\<lparr>store := (store check)(a := (store check a)\<lparr>var_typ := t\<rparr>)\<rparr>"

definition set_used :: "Checker \<Rightarrow> nat \<Rightarrow> bool \<Rightarrow> Checker" where
  "set_used check a b = check\<lparr>store := (store check)(a := (store check a)\<lparr>var_used := b\<rparr>)\<rparr>"

text \<open>
  \<^verbatim>\<open>initConst\<close> returns the updated constant, operand and checker; a failed
  \<^verbatim>\<open>assert\<close> is the panic \<open>Inl AssertionFailed\<close>.
\<close>

definition initConst :: "Env \<Rightarrow> Checker \<Rightarrow> Const \<Rightarrow> operand \<Rightarrow> panic + (Const \<times> operand \<times> Checker)" where
  "initConst E check lhs x =
     (if opd_mode x = invalid \<or> opd_typ x = Basic Invalid \<or> const_typ lhs = Some (Basic Invalid) then
        Inr ((if const_typ lhs = None then lhs\<lparr>const_typ := Some (Basic Invalid)\<rparr> else lhs), x, check)
      else if opd_mode x \<noteq> constant_mode then
        Inr ((if const_typ lhs = None then lhs\<lparr>const_typ := Some (Basic Invalid)\<rparr> else lhs), x,
             errorf E check (At_operand x) InvalidConstInit ''%s is not constant'' [A_operand x])
      else if \<not> isConstType E (opd_typ x) then Inl AssertionFailed
      else
        let lhs1 = (if const_typ lhs = None then lhs\<lparr>const_typ := Some (opd_typ x)\<rparr> else lhs);
            (x1, check1) = assignment E check x (const_typ lhs1) ''constant declaration''
        in if opd_mode x1 = invalid then Inr (lhs1, x1, check1)
           else Inr (lhs1\<lparr>const_val := opd_val x1\<rparr>, x1, check1))"

text \<open>
  \<^verbatim>\<open>initVar\<close> takes the address of the variable; the result is the returned type
  (\<open>None\<close> for \<^verbatim>\<open>nil\<close>), the operand and the checker.
\<close>

definition initVar :: "Env \<Rightarrow> Checker \<Rightarrow> nat \<Rightarrow> operand \<Rightarrow> string \<Rightarrow> Type option \<times> operand \<times> Checker" where
  "initVar E check lhs x context =
     (if opd_mode x = invalid \<or> opd_typ x = Basic Invalid \<or>
         var_typ (store check lhs) = Some (Basic Invalid) then
        (None, x,
         set_used (if var_typ (store check lhs) = None
                   then set_typ check lhs (Some (Basic Invalid)) else check) lhs True)
      else
        case (if var_typ (store check lhs) = None then
                (if isUntyped (opd_typ x) then
                   (if opd_typ x = Basic UntypedNil then
                      Inl (None, x,
                           set_typ (errorf E check (At_operand x) UntypedNilUse
                                      ''use of untyped nil in %s'' [A_string context])
                                   lhs (Some (Basic Invalid)))
                    else Inr (set_typ check lhs (Some (Default (opd_typ x)))))
                 else Inr (set_typ check lhs (Some (opd_typ x))))
              else Inr check) of
          Inl r \<Rightarrow> r
        | Inr check1 \<Rightarrow>
            let (x2, check2) = assignment E check1 x (var_typ (store check1 lhs)) context in
            if opd_mode x2 = invalid then (None, x2, set_used check2 lhs True)
            else (Some (opd_typ x2), x2, check2))"

subsection \<open>lhsVar, assignVar\<close>

text \<open>
  \<^verbatim>\<open>lhsVar\<close>: \<open>v\<close> is the address of the same-package variable the identifier denotes,
  if any, and \<open>v_used\<close> the snapshot of its flag.
\<close>

definition lhsVar :: "Env \<Rightarrow> Checker \<Rightarrow> Expr \<Rightarrow> Type option \<times> Checker" where
  "lhsVar E check lhs =
     (let ident = (case unparen lhs of Name n \<Rightarrow> Some n | _ \<Rightarrow> None) in
      if ident = Some ''_'' then (None, recordDef check (unparen lhs) None)
      else
        let v = (case ident of
                   None \<Rightarrow> None
                 | Some n \<Rightarrow>
                     (case lookup E check n of
                        Some (VarObj w) \<Rightarrow>
                          if var_pkg (store check w) = pkg check then Some w else None
                      | _ \<Rightarrow> None));
            v_used = (case v of None \<Rightarrow> False | Some w \<Rightarrow> var_used (store check w));
            (x, check1) = check_expr E check lhs;
            check2 = (case v of None \<Rightarrow> check1 | Some w \<Rightarrow> set_used check1 w v_used)
        in
          if opd_mode x = invalid \<or> opd_typ x = Basic Invalid then (Some (Basic Invalid), check2)
          else if opd_mode x = invalid then (Some (Basic Invalid), check2)
          else if opd_mode x = variable \<or> opd_mode x = mapindex then (Some (opd_typ x), check2)
          else
            case opd_expr x of
              SelectorExpr selX sel \<Rightarrow>
                let (op, check3) = check_expr E check2 selX in
                if opd_mode op = mapindex then
                  (Some (Basic Invalid),
                   errorf E check3 (At_operand x) UnaddressableFieldAssign
                     ''cannot assign to struct field %s in map''
                     [A_string (syntax_String E (opd_expr x))])
                else
                  (Some (Basic Invalid),
                   errorf E check3 (At_operand x) UnassignableOperand ''cannot assign to %s''
                     [A_operand x])
            | _ \<Rightarrow>
                (Some (Basic Invalid),
                 errorf E check2 (At_operand x) UnassignableOperand ''cannot assign to %s''
                   [A_operand x]))"

definition assignVar :: "Env \<Rightarrow> Checker \<Rightarrow> Expr \<Rightarrow> operand \<Rightarrow> Type option \<times> operand \<times> Checker" where
  "assignVar E check lhs x =
     (if opd_mode x = invalid \<or> opd_typ x = Basic Invalid then (None, x, use E check [lhs])
      else
        let (T, check1) = lhsVar E check lhs in
        if T = Some (Basic Invalid) then (None, x, check1)
        else
          let context = (if T = None then ''assignment to _ identifier'' else ''assignment'');
              (x1, check2) = assignment E check1 x T context
          in if opd_mode x1 = invalid then (None, x1, check2)
             else (Some (opd_typ x1), x1, check2))"

subsection \<open>Type summaries and arity errors\<close>

definition operandTypes :: "operand list \<Rightarrow> Type option list" where
  "operandTypes list = map (\<lambda>x. Some (opd_typ x)) list"

definition varTypes :: "Checker \<Rightarrow> nat list \<Rightarrow> Type option list" where
  "varTypes check list = map (\<lambda>a. var_typ (store check a)) list"

text \<open>
  \<^verbatim>\<open>strings.Replace(s, old, new, -1)\<close> for a non-empty \<open>old\<close>: every
  non-overlapping occurrence, from the left. (The only call passes \<^verbatim>\<open>"untyped "\<close>.)
\<close>

function strings_Replace :: "string \<Rightarrow> string \<Rightarrow> string \<Rightarrow> string" where
  "strings_Replace s old new =
     (if s = [] \<or> old = [] then s
      else if take (length old) s = old then new @ strings_Replace (drop (length old) s) old new
      else hd s # strings_Replace (tl s) old new)"
  by pat_completeness auto
termination
  by (relation "measure (\<lambda>(s, old, new). length s)") (auto simp: neq_Nil_conv)

fun strings_Join :: "string list \<Rightarrow> string \<Rightarrow> string" where
  "strings_Join [] sep = []"
| "strings_Join [s] sep = s"
| "strings_Join (s # ss) sep = s @ sep @ strings_Join ss sep"

text \<open>
  One round of the loop of \<^verbatim>\<open>typesSummary\<close>: the string for the type at index
  \<open>i\<close> of a list of length \<open>n\<close>. The assertion \<^verbatim>\<open>t.(*Slice)\<close> panics on another type.
\<close>

definition typesSummary_elem :: "Env \<Rightarrow> bool \<Rightarrow> nat \<Rightarrow> nat \<Rightarrow> Type option \<Rightarrow> panic + string" where
  "typesSummary_elem E variadic n i t =
     (case (case t of
              None \<Rightarrow> Inr ''unknown type''
            | Some t' \<Rightarrow>
                if t' = Basic Invalid then Inr ''unknown type''
                else if isUntyped t' then
                  (if isNumeric t' then Inr ''number''
                   else case t' of
                          Basic k \<Rightarrow> Inr (strings_Replace (basic_name k) ''untyped '' [])
                        | _ \<Rightarrow> Inl TypeAssertionFailed)
                else if variadic \<and> i + 1 = n then
                  (case t' of
                     Slice elem \<Rightarrow> Inr (sprintf E ''...%s'' [A_Type (Some elem)])
                   | _ \<Rightarrow> Inl TypeAssertionFailed)
                else Inr []) of
        Inl p \<Rightarrow> Inl p
      | Inr s \<Rightarrow> Inr (if s = [] then sprintf E ''%s'' [A_Type t] else s))"

fun typesSummary_loop :: "Env \<Rightarrow> bool \<Rightarrow> nat \<Rightarrow> nat \<Rightarrow> Type option list \<Rightarrow> panic + string list" where
  "typesSummary_loop E variadic n i [] = Inr []"
| "typesSummary_loop E variadic n i (t # ts) =
     (case typesSummary_elem E variadic n i t of
        Inl p \<Rightarrow> Inl p
      | Inr s \<Rightarrow>
          (case typesSummary_loop E variadic n (Suc i) ts of
             Inl p \<Rightarrow> Inl p
           | Inr res \<Rightarrow> Inr (s # res)))"

definition typesSummary :: "Env \<Rightarrow> Type option list \<Rightarrow> bool \<Rightarrow> panic + string" where
  "typesSummary E list variadic =
     (case typesSummary_loop E variadic (length list) 0 list of
        Inl p \<Rightarrow> Inl p
      | Inr res \<Rightarrow> Inr (''('' @ strings_Join res '', '' @ '')''))"

definition measure_str :: "Env \<Rightarrow> int \<Rightarrow> string \<Rightarrow> string" where
  "measure_str E x unit =
     fmt_Sprintf E ''%d %s'' [A_int x, A_string (if x \<noteq> 1 then unit @ ''s'' else unit)]"

definition assignError :: "Env \<Rightarrow> Checker \<Rightarrow> Expr list \<Rightarrow> nat \<Rightarrow> nat \<Rightarrow> panic + Checker" where
  "assignError E check rhs nvars nvals =
     (let vars = measure_str E (int nvars) ''variable'';
          vals = measure_str E (int nvals) ''value''
      in case rhs of
           [] \<Rightarrow> Inl IndexOutOfRange
         | rhs0 # rest \<Rightarrow>
             (case (if length rhs = 1 then
                      (case unparen rhs0 of CallExpr f as \<Rightarrow> Some f | _ \<Rightarrow> None)
                    else None) of
                Some f \<Rightarrow>
                  Inr (errorf E check (At_Expr rhs0) WrongAssignCount
                         ''assignment mismatch: %s but %s returns %s''
                         [A_string vars, A_Expr f, A_string vals])
              | None \<Rightarrow>
                  Inr (errorf E check (At_Expr rhs0) WrongAssignCount
                         ''assignment mismatch: %s but %s'' [A_string vars, A_string vals])))"

subsection \<open>initVars\<close>

text \<open>The loop that invalidates the left-hand side on an arity mismatch.\<close>

fun invalidate_lhs :: "Checker \<Rightarrow> nat list \<Rightarrow> Checker" where
  "invalidate_lhs check [] = check"
| "invalidate_lhs check (obj # objs) =
     invalidate_lhs
       (let check1 = set_used check obj True in
        if var_typ (store check1 obj) = None then set_typ check1 obj (Some (Basic Invalid))
        else check1)
       objs"

fun mark_used :: "Checker \<Rightarrow> nat list \<Rightarrow> Checker" where
  "mark_used check [] = check"
| "mark_used check (lhs # rest) = mark_used (set_used check lhs True) rest"

text \<open>
  The loop over the pairs of the normal form: \<open>ok\<close> is cleared when an
  initialization returns \<^verbatim>\<open>nil\<close>. Both lists have the same length there.
\<close>

fun initVars_loop :: "Env \<Rightarrow> string \<Rightarrow> bool \<times> Checker \<Rightarrow> nat list \<Rightarrow> operand list \<Rightarrow> bool \<times> Checker" where
  "initVars_loop E context (ok, check) (lhs # ls) (x # xs) =
     (case initVar E check lhs x context of
        (T, x', check1) \<Rightarrow> initVars_loop E context (if T = None then False else ok, check1) ls xs)"
| "initVars_loop E context (ok, check) ls xs = (ok, check)"

definition initVars :: "Env \<Rightarrow> Checker \<Rightarrow> nat list \<Rightarrow> Expr list \<Rightarrow> Stmt option \<Rightarrow> panic + Checker" where
  "initVars E check0 lhs orig_rhs returnStmt =
     (let ((rhs, commaOk), check) =
            exprList E check0 orig_rhs (length lhs = 2 \<and> returnStmt = None)
      in
        if length lhs \<noteq> length rhs then
          let check1 = invalidate_lhs check lhs in
          if \<exists>x \<in> set rhs. opd_mode x = invalid then Inr check1
          else
            case returnStmt of
              Some stmt \<Rightarrow>
                let (at, qualifier) =
                      (if length rhs > length lhs then
                         (At_Expr (opd_expr (rhs ! length lhs)), ''too many'')
                       else if length rhs > 0 then
                         (At_Expr (opd_expr (rhs ! (length rhs - 1))), ''not enough'')
                       else (At_Stmt stmt, ''not enough''))
                in
                  (case typesSummary E (operandTypes rhs) False of
                     Inl p \<Rightarrow> Inl p
                   | Inr have_s \<Rightarrow>
                       (case typesSummary E (varTypes check1 lhs) False of
                          Inl p \<Rightarrow> Inl p
                        | Inr want_s \<Rightarrow>
                            Inr (report check1
                                   \<lparr>err_code = WrongResultCount, err_soft = False,
                                    err_desc =
                                      [(at, sprintf E ''%s return values'' [A_string qualifier]),
                                       (At_Pos nopos, sprintf E ''have %s'' [A_string have_s]),
                                       (At_Pos nopos, sprintf E ''want %s'' [A_string want_s])]\<rparr>)))
            | None \<Rightarrow> assignError E check1 orig_rhs (length lhs) (length rhs)
        else
          let context = (if returnStmt \<noteq> None then ''return statement'' else ''assignment'') in
          if commaOk then
            (case (lhs, rhs, orig_rhs) of
               (l0 # l1 # ls, r0 # r1 # rs, e0 # es) \<Rightarrow>
                 (case initVar E check l0 r0 context of
                    (a0, r0', check1) \<Rightarrow>
                      (case initVar E check1 l1 r1 context of
                         (a1, r1', check2) \<Rightarrow> Inr (recordCommaOkTypes check2 e0 (a0, a1))))
             | _ \<Rightarrow> Inl IndexOutOfRange)
          else
            (case initVars_loop E context (True, check) lhs rhs of
               (ok, check1) \<Rightarrow> Inr (if \<not> ok then mark_used check1 lhs else check1)))"

fun unpackExpr :: "Expr option \<Rightarrow> Expr list" where
  "unpackExpr (Some (ListExpr es)) = es"
| "unpackExpr (Some x) = [x]"
| "unpackExpr None = []"

subsection \<open>assignVars\<close>

fun assignVars_loop :: "Env \<Rightarrow> bool \<times> Checker \<Rightarrow> Expr list \<Rightarrow> operand list \<Rightarrow> bool \<times> Checker" where
  "assignVars_loop E (ok, check) (lhs # ls) (x # xs) =
     (case assignVar E check lhs x of
        (T, x', check1) \<Rightarrow> assignVars_loop E (if T = None then False else ok, check1) ls xs)"
| "assignVars_loop E (ok, check) ls xs = (ok, check)"

fun mark_names_used :: "Env \<Rightarrow> Checker \<Rightarrow> Expr list \<Rightarrow> Checker" where
  "mark_names_used E check [] = check"
| "mark_names_used E check (lhs # rest) =
     mark_names_used E
       (case unparen lhs of
          Name n \<Rightarrow>
            (case lookup E check n of
               Some (VarObj v) \<Rightarrow>
                 if var_pkg (store check v) = pkg check then set_used check v True else check
             | _ \<Rightarrow> check)
        | _ \<Rightarrow> check)
       rest"

definition assignVars :: "Env \<Rightarrow> Checker \<Rightarrow> Expr list \<Rightarrow> Expr list \<Rightarrow> panic + Checker" where
  "assignVars E check0 lhs orig_rhs =
     (let ((rhs, commaOk), check) = exprList E check0 orig_rhs (length lhs = 2) in
      if length lhs \<noteq> length rhs then
        let check1 = use E check lhs in
        if \<exists>x \<in> set rhs. opd_mode x = invalid then Inr check1
        else assignError E check1 orig_rhs (length lhs) (length rhs)
      else if commaOk then
        (case (lhs, rhs, orig_rhs) of
           (l0 # l1 # ls, r0 # r1 # rs, e0 # es) \<Rightarrow>
             (case assignVar E check l0 r0 of
                (a0, r0', check1) \<Rightarrow>
                  (case assignVar E check1 l1 r1 of
                     (a1, r1', check2) \<Rightarrow> Inr (recordCommaOkTypes check2 e0 (a0, a1))))
         | _ \<Rightarrow> Inl IndexOutOfRange)
      else
        (case assignVars_loop E (True, check) lhs rhs of
           (ok, check1) \<Rightarrow> Inr (if \<not> ok then mark_names_used E check1 lhs else check1)))"

subsection \<open>shortVarDecl\<close>

text \<open>
  Modelled from the spec: \<^verbatim>\<open>NewVar\<close> allocates a fresh variable with the given
  position, package, name and type, not yet used.
\<close>

definition NewVar :: "Checker \<Rightarrow> Pos \<Rightarrow> nat \<Rightarrow> string \<Rightarrow> Type option \<Rightarrow> nat \<times> Checker" where
  "NewVar check pos p name t =
     (next_var check,
      check\<lparr>store := (store check)(next_var check :=
                 \<lparr>var_name = name, var_pkg = p, var_typ = t, var_used = False, var_pos = pos\<rparr>),
            next_var := Suc (next_var check)\<rparr>)"

text \<open>
  The state of the loop that collects the left-hand variables: \<open>seen\<close>,
  \<open>lhsVars\<close> (with \<open>None\<close> for a \<^verbatim>\<open>nil\<close> entry), \<open>newVars\<close>, \<open>hasErr\<close> and the checker.
\<close>

type_synonym collect_state = "string set \<times> nat option list \<times> nat list \<times> bool \<times> Checker"

definition collect_step :: "Env \<Rightarrow> collect_state \<Rightarrow> Expr \<Rightarrow> collect_state" where
  "collect_step E st lhs =
     (case st of (seen, lhsVars, newVars, hasErr, check) \<Rightarrow>
        (case lhs of
           Name name \<Rightarrow>
             if name \<noteq> ''_'' \<and> name \<in> seen then
               (seen, lhsVars @ [None], newVars, True,
                errorf E check (At_Expr lhs) RepeatedDecl ''%s repeated on left side of :=''
                  [A_Expr lhs])
             else
               let seen1 = (if name \<noteq> ''_'' then insert name seen else seen) in
               (case scope check name of
                  Some alt \<Rightarrow>
                    let check1 = recordUse check lhs alt in
                    (case alt of
                       VarObj obj \<Rightarrow> (seen1, lhsVars @ [Some obj], newVars, hasErr, check1)
                     | _ \<Rightarrow>
                         (seen1, lhsVars @ [None], newVars, True,
                          errorf E check1 (At_Expr lhs) UnassignableOperand ''cannot assign to %s''
                            [A_Expr lhs]))
                | None \<Rightarrow>
                    let (obj, check1) = NewVar check (Pos_of lhs) (pkg check) name None in
                    (seen1, lhsVars @ [Some obj],
                     (if name \<noteq> ''_'' then newVars @ [obj] else newVars), hasErr,
                     recordDef check1 lhs (Some (VarObj obj))))
         | _ \<Rightarrow>
             (seen, lhsVars @ [None], newVars, True,
              errorf E (use E check [lhs]) (At_Expr lhs) BadDecl ''non-name %s on left side of :=''
                [A_Expr lhs])))"

definition collect_lhs :: "Env \<Rightarrow> Checker \<Rightarrow> Expr list \<Rightarrow> collect_state" where
  "collect_lhs E check lhs = foldl (collect_step E) ({}, [], [], False, check) lhs"

text \<open>The loop that creates dummy variables where the left-hand side is invalid.\<close>

fun fill_dummies :: "Checker \<Rightarrow> Expr list \<Rightarrow> nat option list \<Rightarrow> nat list \<times> Checker" where
  "fill_dummies check (e # es) (Some obj # objs) =
     (case fill_dummies check es objs of (vs, check1) \<Rightarrow> (obj # vs, check1))"
| "fill_dummies check (e # es) (None # objs) =
     (case NewVar check (Pos_of e) (pkg check) ''_'' None of
        (obj, check1) \<Rightarrow>
          (case fill_dummies check1 es objs of (vs, check2) \<Rightarrow> (obj # vs, check2)))"
| "fill_dummies check es objs = ([], check)"

text \<open>
  The part of \<^verbatim>\<open>shortVarDecl\<close> up to \<^verbatim>\<open>check.processDelayed(top)\<close>: the result
  is \<open>newVars\<close>, \<open>hasErr\<close> and the checker at that point.
\<close>

definition shortVarDecl_rhs :: "Env \<Rightarrow> Checker \<Rightarrow> Expr list \<Rightarrow> Expr list \<Rightarrow> panic + (nat list \<times> bool \<times> Checker)" where
  "shortVarDecl_rhs E check lhs rhs =
     (let top = length (delayed check) in
      case collect_lhs E check lhs of
        (seen, lhsVars0, newVars, hasErr, check1) \<Rightarrow>
          (case fill_dummies check1 lhs lhsVars0 of
             (lhsVars, check2) \<Rightarrow>
               (case initVars E check2 lhsVars rhs None of
                  Inl p \<Rightarrow> Inl p
                | Inr check3 \<Rightarrow> Inr (newVars, hasErr, processDelayed E check3 top))))"

definition shortVarDecl :: "Env \<Rightarrow> Checker \<Rightarrow> Pos \<Rightarrow> Expr list \<Rightarrow> Expr list \<Rightarrow> panic + Checker" where
  "shortVarDecl E check pos lhs rhs =
     (case shortVarDecl_rhs E check lhs rhs of
        Inl p \<Rightarrow> Inl p
      | Inr (newVars, hasErr, check4) \<Rightarrow>
          if length newVars = 0 \<and> \<not> hasErr then
            Inr (softErrorf E check4 (At_Pos pos) NoNewVar
                   ''no new variables on left side of :='' [])
          else if rhs = [] then Inl IndexOutOfRange
          else Inr (foldl (\<lambda>c obj. declare_obj E c obj (EndPos (last rhs))) check4 newVars))"

text \<open>
  The spec's words for the two conditions of a short declaration, on the left-hand list
  and the enclosing scope: some identifier other than the blank one is not bound in the
  scope (it is newly allocated); and an error of the left-hand processing (a non-name, a
  repeated identifier, or an identifier bound to something that is not a variable).
\<close>

definition isName :: "Expr \<Rightarrow> bool" where
  "isName e = (case e of Name n \<Rightarrow> True | _ \<Rightarrow> False)"

definition is_new_name :: "string set \<Rightarrow> (string \<Rightarrow> Object option) \<Rightarrow> Expr \<Rightarrow> bool" where
  "is_new_name seen sc e =
     (case e of Name n \<Rightarrow> n \<noteq> ''_'' \<and> n \<notin> seen \<and> sc n = None | _ \<Rightarrow> False)"

definition binds_non_var :: "(string \<Rightarrow> Object option) \<Rightarrow> Expr \<Rightarrow> bool" where
  "binds_non_var sc e =
     (case e of
        Name n \<Rightarrow> (case sc n of Some (VarObj a) \<Rightarrow> False | Some alt \<Rightarrow> True | None \<Rightarrow> False)
      | _ \<Rightarrow> False)"

definition nonblank_names :: "Expr list \<Rightarrow> string list" where
  "nonblank_names lhs =
     concat (map (\<lambda>e. case e of Name n \<Rightarrow> (if n \<noteq> ''_'' then [n] else []) | _ \<Rightarrow> []) lhs)"

definition introduces_new :: "(string \<Rightarrow> Object option) \<Rightarrow> Expr list \<Rightarrow> bool" where
  "introduces_new sc lhs = list_ex (is_new_name {} sc) lhs"

definition lhs_error :: "(string \<Rightarrow> Object option) \<Rightarrow> Expr list \<Rightarrow> bool" where
  "lhs_error sc lhs =
     (list_ex (\<lambda>e. \<not> isName e) lhs \<or> \<not> distinct (nonblank_names lhs) \<or>
      list_ex (binds_non_var sc) lhs)"

subsection \<open>A sample environment\<close>

text \<open>
  One concrete choice of the parameters, used to run the definitions on concrete inputs.
  Modelled from the spec: an untyped integer constant converts to a basic integer type
  when its value is in the range of that type and fails with a numeric overflow
  otherwise; a value is assignable to an identical type and to an interface; an
  identifier evaluates to the variable it denotes in the scope, which marks it used; a
  literal evaluates to an untyped string constant.
\<close>

definition representable :: "int \<Rightarrow> BasicKind \<Rightarrow> bool" where
  "representable v k =
     (if k = Int_kind then - (2 ^ 63) \<le> v \<and> v < 2 ^ 63
      else if k = Int32 then - (2 ^ 31) \<le> v \<and> v < 2 ^ 31
      else True)"

definition implicitTypeAndValue0 :: "Checker \<Rightarrow> operand \<Rightarrow> Type option \<Rightarrow> Type \<times> constant_Value option \<times> Code" where
  "implicitTypeAndValue0 check x target =
     (case target of
        None \<Rightarrow> (opd_typ x, None, InvalidUntypedConversion)
      | Some t \<Rightarrow>
          (case (opd_val x, under t) of
             (Some (IntVal v), Basic k) \<Rightarrow>
               if representable v k then (t, Some (IntVal v), Code_0)
               else (t, None, NumericOverflow)
           | _ \<Rightarrow> (t, None, Code_0)))"

definition assignableTo0 :: "Checker \<Rightarrow> operand \<Rightarrow> Type \<Rightarrow> bool \<times> Code \<times> string" where
  "assignableTo0 check x T = (opd_typ x = T \<or> IsInterface T, IncompatibleAssign, [])"

definition invalid_operand :: "Expr \<Rightarrow> operand" where
  "invalid_operand e = \<lparr>opd_mode = invalid, opd_typ = Basic Invalid, opd_val = None, opd_expr = e\<rparr>"

definition check_expr0 :: "Checker \<Rightarrow> Expr \<Rightarrow> operand \<times> Checker" where
  "check_expr0 check e =
     (case unparen e of
        Name n \<Rightarrow>
          (case scope check n of
             Some (VarObj a) \<Rightarrow>
               (\<lparr>opd_mode = variable,
                 opd_typ = (case var_typ (store check a) of Some t \<Rightarrow> t | None \<Rightarrow> Basic Invalid),
                 opd_val = None, opd_expr = e\<rparr>,
                set_used check a True)
           | _ \<Rightarrow> (invalid_operand e, check))
      | BasicLit s \<Rightarrow>
          (\<lparr>opd_mode = constant_mode, opd_typ = Basic UntypedString,
            opd_val = Some (StringVal s), opd_expr = e\<rparr>, check)
      | _ \<Rightarrow> (invalid_operand e, check))"

fun exprs0 :: "Checker \<Rightarrow> Expr list \<Rightarrow> operand list \<times> Checker" where
  "exprs0 check [] = ([], check)"
| "exprs0 check (e # es) =
     (case check_expr0 check e of
        (x, check1) \<Rightarrow> (case exprs0 check1 es of (xs, check2) \<Rightarrow> (x # xs, check2)))"

definition Env0 :: Env where
  "Env0 =
     \<lparr>singleValue = (\<lambda>check x. (x, check)),
      implicitTypeAndValue = implicitTypeAndValue0,
      assignableTo = assignableTo0,
      isConstType = (\<lambda>t. case t of Basic k \<Rightarrow> k \<noteq> Invalid \<and> k \<noteq> UntypedNil | _ \<Rightarrow> False),
      sprintf = (\<lambda>format args. format),
      check_expr = check_expr0,
      exprList = (\<lambda>check es allowCommaOk. case exprs0 check es of (xs, check1) \<Rightarrow> ((xs, False), check1)),
      use = (\<lambda>check es. snd (exprs0 check es)),
      lookup = (\<lambda>check n. scope check n),
      processDelayed = (\<lambda>check top. check),
      declare_obj = (\<lambda>check a pos.
         if var_name (store check a) \<noteq> ''_''
         then check\<lparr>scope := (scope check)(var_name (store check a) := Some (VarObj a))\<rparr>
         else check),
      syntax_String = (\<lambda>e. ''expr''),
      fmt_Sprintf = (\<lambda>format args. format)\<rparr>"

definition Var0 :: Var where
  "Var0 = \<lparr>var_name = [], var_pkg = 0, var_typ = None, var_used = False, var_pos = nopos\<rparr>"

definition Checker0 :: Checker where
  "Checker0 =
     \<lparr>pkg = 0, errors = [], exprVals = [], exprTypes = [], store = (\<lambda>a. Var0), next_var = 0,
      scope = (\<lambda>n. None), defs = [], uses = [], commaOkTypes = [], delayed = []\<rparr>"

text \<open>Sample operands: the constant \<^verbatim>\<open>1 << 100\<close>, the constant \<^verbatim>\<open>5\<close>, the nil literal,
  a cgo function used as a value, and an uninstantiated generic function.\<close>

definition x_big :: operand where
  "x_big = \<lparr>opd_mode = constant_mode, opd_typ = Basic UntypedInt,
            opd_val = Some (IntVal (2 ^ 100)), opd_expr = BasicLit ''1 << 100''\<rparr>"

definition x_five :: operand where
  "x_five = \<lparr>opd_mode = constant_mode, opd_typ = Basic UntypedInt,
            opd_val = Some (IntVal 5), opd_expr = BasicLit ''5''\<rparr>"

definition x_nil :: operand where
  "x_nil = \<lparr>opd_mode = nilvalue, opd_typ = Basic UntypedNil, opd_val = None, opd_expr = Name ''nil''\<rparr>"

definition x_cgo :: operand where
  "x_cgo = \<lparr>opd_mode = cgofunc, opd_typ = Signature 0 (Tuple []) (Tuple []), opd_val = None,
            opd_expr = SelectorExpr (Name ''C'') (Name ''puts'')\<rparr>"

definition x_generic :: operand where
  "x_generic = \<lparr>opd_mode = value_mode, opd_typ = Signature 1 (Tuple [TypeParam ''T'' (Interface [])]) (Tuple []),
            opd_val = None, opd_expr = Name ''f''\<rparr>"

text \<open>Sample constants: one without a declared type, one declared \<^verbatim>\<open>int\<close>.\<close>

definition c_unset :: Const where
  "c_unset = \<lparr>const_typ = None, const_val = None\<rparr>"

definition c_int :: Const where
  "c_int = \<lparr>const_typ = Some (Basic Int_kind), const_val = None\<rparr>"

text \<open>
  A sample checker whose scope binds \<^verbatim>\<open>x\<close> to the variable at address 0, of type
  \<^verbatim>\<open>string\<close> and not yet used.
\<close>

definition Checker_x :: Checker where
  "Checker_x =
     Checker0\<lparr>store := (\<lambda>a. Var0)(0 := \<lparr>var_name = ''x'', var_pkg = 0, var_typ = Some (Basic String),
                                        var_used = False, var_pos = nopos\<rparr>),
              next_var := 1,
              scope := (\<lambda>n. None)(''x'' := Some (VarObj 0))\<rparr>"

section \<open>Properties\<close>

subsection \<open>Helper lemmas\<close>

lemma errors_report: "errors (report check err) = errors check @ [err]"
  by (simp add: report_def)

lemma errors_errorf:
  "errors (errorf E check at c format args) =
     errors check @ [\<lparr>err_code = c, err_soft = False, err_desc = [(at, sprintf E format args)]\<rparr>]"
  by (simp add: errorf_def check_error_def report_def)

lemma errors_check_error:
  "errors (check_error check at c msg) =
     errors check @ [\<lparr>err_code = c, err_soft = False, err_desc = [(at, msg)]\<rparr>]"
  by (simp add: check_error_def report_def)

lemma under_Signature_typed: "under t = Signature n ps rs \<Longrightarrow> \<not> isUntyped t"
  by (cases t) auto

lemma errorf_conv_upd: "errorf (E\<lparr>implicitTypeAndValue := f\<rparr>) = errorf E"
  by (simp add: errorf_def fun_eq_iff)

lemma generic_check_conv_upd: "generic_check (E\<lparr>implicitTypeAndValue := f\<rparr>) = generic_check E"
  by (simp add: generic_check_def fun_eq_iff errorf_conv_upd split: Type.split)

lemma assignable_check_conv_upd:
  "assignable_check (E\<lparr>implicitTypeAndValue := f\<rparr>) = assignable_check E"
  by (simp add: assignable_check_def fun_eq_iff errorf_conv_upd split: option.split prod.split)

lemma assignment_untyped_conv_upd:
  "f check x (conversion_target x T) = implicitTypeAndValue E check x (conversion_target x T) \<Longrightarrow>
   assignment_untyped (E\<lparr>implicitTypeAndValue := f\<rparr>) check x T ctxt =
   assignment_untyped E check x T ctxt"
  by (simp add: assignment_untyped_def Let_def errorf_conv_upd split: prod.split)

lemma assignment_conv_upd:
  assumes "singleValue E check0 x0 = (x, check)"
    and "f check x (conversion_target x T) = implicitTypeAndValue E check x (conversion_target x T)"
  shows "assignment (E\<lparr>implicitTypeAndValue := f\<rparr>) check0 x0 T ctxt =
         assignment E check0 x0 T ctxt"
  using assms
  by (simp add: assignment_def assignment_untyped_conv_upd errorf_conv_upd
      generic_check_conv_upd assignable_check_conv_upd split: sum.split prod.split)

lemma opd_typ_assignable_check: "opd_typ (fst (assignable_check E check x T ctxt)) = opd_typ x"
  by (simp add: assignable_check_def split: option.split prod.split)

lemma assignment_untyped_success:
  assumes "implicitTypeAndValue E check x (conversion_target x T) = (newType, v, Code_0)"
    and "\<not> isNil x"
  shows "\<exists>x' check'. assignment_untyped E check x T ctxt = Inr (x', check') \<and> opd_typ x' = newType
           \<and> opd_mode x' = opd_mode x"
  using assms by (simp add: assignment_untyped_def Let_def split: option.split)

subsection \<open>The conversion target of an untyped operand\<close>

text \<open>
  Claim C1. In \<^verbatim>\<open>assignment\<close>, for an operand of an untyped-constant type that is not
  the nil literal, the conversion target is the operand's default type when the target
  type is absent or a non-type-parameter interface, and the given target type otherwise.
  The conversion is consulted at that target only (replacing the conversion function by
  any other that agrees at this target does not change the result), and when it
  succeeds the operand gets the type it returns.
\<close>
theorem assignment_conversion_target:
  assumes "singleValue E check0 x0 = (x, check)"
    and "opd_mode x \<in> set assignable_modes"
    and "isUntyped (opd_typ x)"
    and "\<not> isNil x"
  shows "conversion_target x T =
           (if T = None \<or> (\<exists>t. T = Some t \<and> isNonTypeParamInterface t)
            then Some (Default (opd_typ x)) else T)
         \<and> (\<forall>f. f check x (conversion_target x T) =
                  implicitTypeAndValue E check x (conversion_target x T) \<longrightarrow>
                assignment (E\<lparr>implicitTypeAndValue := f\<rparr>) check0 x0 T ctxt =
                assignment E check0 x0 T ctxt)
         \<and> (\<forall>newType v. implicitTypeAndValue E check x (conversion_target x T) = (newType, v, Code_0) \<longrightarrow>
                opd_typ (fst (assignment E check0 x0 T ctxt)) = newType)"
proof (intro conjI allI impI)
  show "conversion_target x T =
           (if T = None \<or> (\<exists>t. T = Some t \<and> isNonTypeParamInterface t)
            then Some (Default (opd_typ x)) else T)"
    using assms(4) by (cases T) (simp_all add: conversion_target_def)
next
  fix f
  assume "f check x (conversion_target x T) = implicitTypeAndValue E check x (conversion_target x T)"
  then show "assignment (E\<lparr>implicitTypeAndValue := f\<rparr>) check0 x0 T ctxt =
                assignment E check0 x0 T ctxt"
    using assms(1) by (rule assignment_conv_upd[rotated])
next
  fix newType v
  assume "implicitTypeAndValue E check x (conversion_target x T) = (newType, v, Code_0)"
  from assignment_untyped_success[OF this assms(4)]
  obtain x' check' where u: "assignment_untyped E check x T ctxt = Inr (x', check')"
    and t: "opd_typ x' = newType" by blast
  have "opd_mode x \<noteq> invalid" using assms(2) by (auto simp: assignable_modes_def)
  then show "opd_typ (fst (assignment E check0 x0 T ctxt)) = newType"
    using assms(1,2,3) u t by (simp add: assignment_def opd_typ_assignable_check)
qed

theorem assignment_conversion_target_witness:
  "singleValue Env0 Checker0 x_five = (x_five, Checker0) \<and>
   opd_mode x_five \<in> set assignable_modes \<and> isUntyped (opd_typ x_five) \<and> \<not> isNil x_five \<and>
   conversion_target x_five (Some (Interface [])) = Some (Basic Int_kind) \<and>
   conversion_target x_five None = Some (Basic Int_kind) \<and>
   conversion_target x_five (Some (Basic Int32)) = Some (Basic Int32) \<and>
   opd_typ (fst (assignment Env0 Checker0 x_five (Some (Interface [])) ''assignment'')) = Basic Int_kind"
proof -
  have h1: "singleValue Env0 Checker0 x_five = (x_five, Checker0)" by (simp add: Env0_def)
  have h2: "opd_mode x_five \<in> set assignable_modes" by (simp add: x_five_def assignable_modes_def)
  have h3: "isUntyped (opd_typ x_five)" by (simp add: x_five_def)
  have h4: "\<not> isNil x_five" by (simp add: x_five_def isNil_def)
  have t: "conversion_target x_five (Some (Interface [])) = Some (Basic Int_kind)"
    by (simp add: conversion_target_def isNil_def isNonTypeParamInterface_def x_five_def)
  have c: "implicitTypeAndValue Env0 Checker0 x_five (conversion_target x_five (Some (Interface [])))
           = (Basic Int_kind, Some (IntVal 5), Code_0)"
    by (simp add: t) (simp add: Env0_def implicitTypeAndValue0_def x_five_def representable_def)
  note th = assignment_conversion_target[OF h1 h2 h3 h4]
  have "opd_typ (fst (assignment Env0 Checker0 x_five (Some (Interface [])) ''assignment'')) = Basic Int_kind"
    using th[where T = "Some (Interface [])" and ctxt = "''assignment''"] c by blast
  moreover have "conversion_target x_five None = Some (Basic Int_kind)"
    using th[where T = None and ctxt = "''assignment''"] by (simp add: x_five_def)
  moreover have "conversion_target x_five (Some (Basic Int32)) = Some (Basic Int32)"
    using th[where T = "Some (Basic Int32)" and ctxt = "''assignment''"] by (simp add: isNonTypeParamInterface_def)
  ultimately show ?thesis using h1 h2 h3 h4 t by simp
qed


lemma errorf_asg_upd: "errorf (E\<lparr>assignableTo := g\<rparr>) = errorf E"
  by (simp add: errorf_def fun_eq_iff)

lemma generic_check_asg_upd: "generic_check (E\<lparr>assignableTo := g\<rparr>) = generic_check E"
  by (simp add: generic_check_def fun_eq_iff errorf_asg_upd split: Type.split)

lemma assignment_untyped_asg_upd:
  "assignment_untyped (E\<lparr>assignableTo := g\<rparr>) = assignment_untyped E"
  by (simp add: assignment_untyped_def fun_eq_iff Let_def errorf_asg_upd cong: prod.case_cong if_cong)

lemma assignment_discard_asg_upd:
  "assignment (E\<lparr>assignableTo := g\<rparr>) check0 x0 None ctxt = assignment E check0 x0 None ctxt"
  by (simp add: assignment_def assignment_untyped_asg_upd errorf_asg_upd generic_check_asg_upd
      assignable_check_def split: sum.split prod.split)

subsection \<open>Assignment to a discard target\<close>

text \<open>
  Claim C2 as stated fails: the untyped constant \<^verbatim>\<open>1 << 100\<close> is in a legal mode and is
  not nil, yet assigning it to the blank identifier fails, because the conversion to its
  default type \<^verbatim>\<open>int\<close> overflows.
\<close>
theorem assignment_discard_overflow_counterexample:
  "opd_mode x_big \<in> set assignable_modes \<and> \<not> isNil x_big \<and>
   singleValue Env0 Checker0 x_big = (x_big, Checker0) \<and>
   opd_mode (fst (assignment Env0 Checker0 x_big None ''assignment to _ identifier'')) = invalid \<and>
   map err_code (errors (snd (assignment Env0 Checker0 x_big None ''assignment to _ identifier'')))
     = [NumericOverflow]"
  by (simp add: assignment_def assignment_untyped_def Env0_def x_big_def assignable_modes_def
      isNil_def conversion_target_def implicitTypeAndValue0_def representable_def Let_def
      errors_check_error Checker0_def)

text \<open>
  Helper facts for the discard target: the generic-function check written out, the
  untyped branch with no target type, and the errors of the recording functions.
\<close>

lemma generic_check_eq:
  "generic_check E c y ctxt =
     (if \<exists>n ps rs. under (opd_typ y) = Signature n ps rs \<and> 0 < n
      then errorf E c (At_operand y) WrongTypeArgCount
             ''cannot use generic function %s without instantiation in %s''
             [A_operand y, A_string ctxt]
      else c)"
  by (cases "under (opd_typ y)") (simp_all add: generic_check_def)

lemma errors_updateExprVal: "errors (updateExprVal check e v) = errors check"
  by (simp add: updateExprVal_def)

lemma errors_updateExprType: "errors (updateExprType check e t final) = errors check"
  by (simp add: updateExprType_def)

lemma assignment_untyped_discard:
  assumes "\<not> isNil x"
    and "implicitTypeAndValue E check x (Some (Default (opd_typ x))) = (newType, v, c)"
  shows "assignment_untyped E check x None ctxt =
     (if c \<noteq> Code_0 then
        Inl (x\<lparr>opd_mode := invalid\<rparr>,
             check_error check (At_operand x)
               (if c = TruncatedFloat \<or> c = NumericOverflow then c else IncompatibleAssign)
               (sprintf E ''cannot use %s as %s value in %s''
                  [A_operand x, A_Type (Some (Default (opd_typ x))), A_string ctxt] @
                (if c = TruncatedFloat then '' (truncated)''
                 else if c = NumericOverflow then '' (overflows)'' else [])))
      else
        Inr ((case v of None \<Rightarrow> x | Some v' \<Rightarrow> x\<lparr>opd_val := Some v'\<rparr>)
               \<lparr>opd_typ := newType\<rparr>,
             if newType \<noteq> opd_typ x
             then updateExprType
                    (case v of None \<Rightarrow> check | Some v' \<Rightarrow> updateExprVal check (opd_expr x) v')
                    (opd_expr x) newType False
             else (case v of None \<Rightarrow> check | Some v' \<Rightarrow> updateExprVal check (opd_expr x) v')))"
  using assms
  by (cases v) (simp_all add: assignment_untyped_def conversion_target_def Let_def)

text \<open>
  Claim C2, amended. With an absent target type and an operand in a legal mode, the
  result of \<^verbatim>\<open>assignment\<close> is, case by case:
  \<^item> the untyped nil literal: the operand invalidated and one \<^verbatim>\<open>UntypedNilUse\<close> error;
  \<^item> a typed operand: the operand as it is (not invalid), and the checker with at most the
    generic-function report;
  \<^item> an untyped operand other than nil whose conversion to its default type fails with
    code \<open>c\<close>: the operand invalidated and exactly the conversion error, with code
    \<open>c\<close> for a truncation or an overflow and \<^verbatim>\<open>IncompatibleAssign\<close> otherwise, and the
    message naming the default type with the matching suffix;
  \<^item> an untyped operand other than nil whose conversion succeeds: the operand with the new
    value and type in its old mode (not invalid), the value and type recorded, and at
    most the generic-function report.
  The generic-function check is written out. The assignability oracle is never
  consulted, and the call adds at most one error, whose code is never one of the
  addressability errors: an operand that is not addressable is accepted like any other.
\<close>

theorem assignment_discard:
  assumes "singleValue E check0 x0 = (x, check)"
    and "opd_mode x \<in> set assignable_modes"
  shows "(isUntyped (opd_typ x) \<and> isNil x \<longrightarrow>
            assignment E check0 x0 None ctxt =
              (x\<lparr>opd_mode := invalid\<rparr>,
               errorf E check (At_operand x) UntypedNilUse ''use of untyped nil in %s''
                 [A_string ctxt]))
       \<and> (\<not> isUntyped (opd_typ x) \<longrightarrow>
            assignment E check0 x0 None ctxt = (x, generic_check E check x ctxt) \<and>
            opd_mode (fst (assignment E check0 x0 None ctxt)) \<noteq> invalid)
       \<and> (\<forall>newType v c.
            isUntyped (opd_typ x) \<and> \<not> isNil x \<and>
            implicitTypeAndValue E check x (Some (Default (opd_typ x))) = (newType, v, c) \<and>
            c \<noteq> Code_0 \<longrightarrow>
            assignment E check0 x0 None ctxt =
              (x\<lparr>opd_mode := invalid\<rparr>,
               check_error check (At_operand x)
                 (if c = TruncatedFloat \<or> c = NumericOverflow then c else IncompatibleAssign)
                 (sprintf E ''cannot use %s as %s value in %s''
                    [A_operand x, A_Type (Some (Default (opd_typ x))), A_string ctxt] @
                  (if c = TruncatedFloat then '' (truncated)''
                   else if c = NumericOverflow then '' (overflows)'' else []))))
       \<and> (\<forall>newType v.
            isUntyped (opd_typ x) \<and> \<not> isNil x \<and>
            implicitTypeAndValue E check x (Some (Default (opd_typ x))) = (newType, v, Code_0) \<longrightarrow>
            assignment E check0 x0 None ctxt =
              ((case v of None \<Rightarrow> x | Some v' \<Rightarrow> x\<lparr>opd_val := Some v'\<rparr>)\<lparr>opd_typ := newType\<rparr>,
               generic_check E
                 (if newType \<noteq> opd_typ x
                  then updateExprType
                         (case v of None \<Rightarrow> check
                          | Some v' \<Rightarrow> updateExprVal check (opd_expr x) v')
                         (opd_expr x) newType False
                  else (case v of None \<Rightarrow> check
                        | Some v' \<Rightarrow> updateExprVal check (opd_expr x) v'))
                 ((case v of None \<Rightarrow> x | Some v' \<Rightarrow> x\<lparr>opd_val := Some v'\<rparr>)\<lparr>opd_typ := newType\<rparr>)
                 ctxt) \<and>
            opd_mode (fst (assignment E check0 x0 None ctxt)) = opd_mode x \<and>
            opd_mode (fst (assignment E check0 x0 None ctxt)) \<noteq> invalid)
       \<and> (\<forall>c y. generic_check E c y ctxt =
              (if \<exists>n ps rs. under (opd_typ y) = Signature n ps rs \<and> 0 < n
               then errorf E c (At_operand y) WrongTypeArgCount
                      ''cannot use generic function %s without instantiation in %s''
                      [A_operand y, A_string ctxt]
               else c))
       \<and> (\<forall>g. assignment (E\<lparr>assignableTo := g\<rparr>) check0 x0 None ctxt =
                assignment E check0 x0 None ctxt)
       \<and> (\<exists>ds. errors (snd (assignment E check0 x0 None ctxt)) = errors check @ ds \<and>
                length ds \<le> 1 \<and>
                (\<forall>d \<in> set ds. err_code d \<in> {UntypedNilUse, TruncatedFloat, NumericOverflow,
                                              IncompatibleAssign, WrongTypeArgCount} \<and>
                               err_code d \<noteq> UnassignableOperand \<and>
                               err_code d \<noteq> UnaddressableFieldAssign))"
proof -
  have ni: "opd_mode x \<noteq> invalid" using assms(2) by (auto simp: assignable_modes_def)
  have gen_errors: "\<exists>ds. errors (generic_check E c y ctxt) = errors c @ ds \<and> length ds \<le> 1 \<and>
          (\<forall>d \<in> set ds. err_code d = WrongTypeArgCount)" for c y
    by (simp add: generic_check_eq errors_errorf)
  have a: "isUntyped (opd_typ x) \<and> isNil x \<longrightarrow>
            assignment E check0 x0 None ctxt =
              (x\<lparr>opd_mode := invalid\<rparr>,
               errorf E check (At_operand x) UntypedNilUse ''use of untyped nil in %s''
                 [A_string ctxt])"
    using assms ni by (simp add: assignment_def assignment_untyped_def)
  have b: "\<not> isUntyped (opd_typ x) \<longrightarrow>
            assignment E check0 x0 None ctxt = (x, generic_check E check x ctxt) \<and>
            opd_mode (fst (assignment E check0 x0 None ctxt)) \<noteq> invalid"
    using assms ni by (simp add: assignment_def assignable_check_def)
  have unt: "assignment E check0 x0 None ctxt =
       (case assignment_untyped E check x None ctxt of
          Inl r \<Rightarrow> r
        | Inr (x', check') \<Rightarrow> (x', generic_check E check' x' ctxt))"
    if "isUntyped (opd_typ x)"
    using assms ni that
    by (simp add: assignment_def assignable_check_def split: sum.split prod.split)
  have c: "\<forall>newType v c.
            isUntyped (opd_typ x) \<and> \<not> isNil x \<and>
            implicitTypeAndValue E check x (Some (Default (opd_typ x))) = (newType, v, c) \<and>
            c \<noteq> Code_0 \<longrightarrow>
            assignment E check0 x0 None ctxt =
              (x\<lparr>opd_mode := invalid\<rparr>,
               check_error check (At_operand x)
                 (if c = TruncatedFloat \<or> c = NumericOverflow then c else IncompatibleAssign)
                 (sprintf E ''cannot use %s as %s value in %s''
                    [A_operand x, A_Type (Some (Default (opd_typ x))), A_string ctxt] @
                  (if c = TruncatedFloat then '' (truncated)''
                   else if c = NumericOverflow then '' (overflows)'' else [])))"
  proof (intro allI impI, elim conjE)
    fix newType v c
    assume u: "isUntyped (opd_typ x)" and n: "\<not> isNil x"
      and r: "implicitTypeAndValue E check x (Some (Default (opd_typ x))) = (newType, v, c)"
      and cn: "c \<noteq> Code_0"
    have au: "assignment_untyped E check x None ctxt =
        Inl (x\<lparr>opd_mode := invalid\<rparr>,
             check_error check (At_operand x)
               (if c = TruncatedFloat \<or> c = NumericOverflow then c else IncompatibleAssign)
               (sprintf E ''cannot use %s as %s value in %s''
                  [A_operand x, A_Type (Some (Default (opd_typ x))), A_string ctxt] @
                (if c = TruncatedFloat then '' (truncated)''
                 else if c = NumericOverflow then '' (overflows)'' else [])))"
      unfolding assignment_untyped_discard[OF n r] using cn by (rule if_P)
    show "assignment E check0 x0 None ctxt =
              (x\<lparr>opd_mode := invalid\<rparr>,
               check_error check (At_operand x)
                 (if c = TruncatedFloat \<or> c = NumericOverflow then c else IncompatibleAssign)
                 (sprintf E ''cannot use %s as %s value in %s''
                    [A_operand x, A_Type (Some (Default (opd_typ x))), A_string ctxt] @
                  (if c = TruncatedFloat then '' (truncated)''
                   else if c = NumericOverflow then '' (overflows)'' else [])))"
      unfolding unt[OF u] au by (rule sum.case(1))
  qed
  have d0: "assignment E check0 x0 None ctxt =
              ((case v of None \<Rightarrow> x | Some v' \<Rightarrow> x\<lparr>opd_val := Some v'\<rparr>)\<lparr>opd_typ := newType\<rparr>,
               generic_check E
                 (if newType \<noteq> opd_typ x
                  then updateExprType
                         (case v of None \<Rightarrow> check
                          | Some v' \<Rightarrow> updateExprVal check (opd_expr x) v')
                         (opd_expr x) newType False
                  else (case v of None \<Rightarrow> check
                        | Some v' \<Rightarrow> updateExprVal check (opd_expr x) v'))
                 ((case v of None \<Rightarrow> x | Some v' \<Rightarrow> x\<lparr>opd_val := Some v'\<rparr>)\<lparr>opd_typ := newType\<rparr>)
                 ctxt)"
    if u: "isUntyped (opd_typ x)" and n: "\<not> isNil x"
      and r: "implicitTypeAndValue E check x (Some (Default (opd_typ x))) = (newType, v, Code_0)"
    for newType v
  proof -
    have au: "assignment_untyped E check x None ctxt =
        Inr ((case v of None \<Rightarrow> x | Some v' \<Rightarrow> x\<lparr>opd_val := Some v'\<rparr>)
               \<lparr>opd_typ := newType\<rparr>,
             if newType \<noteq> opd_typ x
             then updateExprType
                    (case v of None \<Rightarrow> check | Some v' \<Rightarrow> updateExprVal check (opd_expr x) v')
                    (opd_expr x) newType False
             else (case v of None \<Rightarrow> check | Some v' \<Rightarrow> updateExprVal check (opd_expr x) v'))"
      unfolding assignment_untyped_discard[OF n r] by simp
    show ?thesis unfolding unt[OF u] au by simp
  qed
  have d1: "opd_mode (fst (assignment E check0 x0 None ctxt)) = opd_mode x"
    if "isUntyped (opd_typ x)" "\<not> isNil x"
      "implicitTypeAndValue E check x (Some (Default (opd_typ x))) = (newType, v, Code_0)"
    for newType v
    unfolding d0[OF that] by (cases v) simp_all
  have d: "\<forall>newType v.
            isUntyped (opd_typ x) \<and> \<not> isNil x \<and>
            implicitTypeAndValue E check x (Some (Default (opd_typ x))) = (newType, v, Code_0) \<longrightarrow>
            assignment E check0 x0 None ctxt =
              ((case v of None \<Rightarrow> x | Some v' \<Rightarrow> x\<lparr>opd_val := Some v'\<rparr>)\<lparr>opd_typ := newType\<rparr>,
               generic_check E
                 (if newType \<noteq> opd_typ x
                  then updateExprType
                         (case v of None \<Rightarrow> check
                          | Some v' \<Rightarrow> updateExprVal check (opd_expr x) v')
                         (opd_expr x) newType False
                  else (case v of None \<Rightarrow> check
                        | Some v' \<Rightarrow> updateExprVal check (opd_expr x) v'))
                 ((case v of None \<Rightarrow> x | Some v' \<Rightarrow> x\<lparr>opd_val := Some v'\<rparr>)\<lparr>opd_typ := newType\<rparr>)
                 ctxt) \<and>
            opd_mode (fst (assignment E check0 x0 None ctxt)) = opd_mode x \<and>
            opd_mode (fst (assignment E check0 x0 None ctxt)) \<noteq> invalid"
  proof (intro allI impI, elim conjE, intro conjI)
    fix newType v
    assume h: "isUntyped (opd_typ x)" "\<not> isNil x"
      "implicitTypeAndValue E check x (Some (Default (opd_typ x))) = (newType, v, Code_0)"
    show "assignment E check0 x0 None ctxt =
              ((case v of None \<Rightarrow> x | Some v' \<Rightarrow> x\<lparr>opd_val := Some v'\<rparr>)\<lparr>opd_typ := newType\<rparr>,
               generic_check E
                 (if newType \<noteq> opd_typ x
                  then updateExprType
                         (case v of None \<Rightarrow> check
                          | Some v' \<Rightarrow> updateExprVal check (opd_expr x) v')
                         (opd_expr x) newType False
                  else (case v of None \<Rightarrow> check
                        | Some v' \<Rightarrow> updateExprVal check (opd_expr x) v'))
                 ((case v of None \<Rightarrow> x | Some v' \<Rightarrow> x\<lparr>opd_val := Some v'\<rparr>)\<lparr>opd_typ := newType\<rparr>)
                 ctxt)"
      by (rule d0[OF h])
    show "opd_mode (fst (assignment E check0 x0 None ctxt)) = opd_mode x" by (rule d1[OF h])
    show "opd_mode (fst (assignment E check0 x0 None ctxt)) \<noteq> invalid"
      unfolding d1[OF h] by (rule ni)
  qed
  have ge: "\<forall>c y. generic_check E c y ctxt =
              (if \<exists>n ps rs. under (opd_typ y) = Signature n ps rs \<and> 0 < n
               then errorf E c (At_operand y) WrongTypeArgCount
                      ''cannot use generic function %s without instantiation in %s''
                      [A_operand y, A_string ctxt]
               else c)"
    by (intro allI) (rule generic_check_eq)
  have e: "\<forall>g. assignment (E\<lparr>assignableTo := g\<rparr>) check0 x0 None ctxt =
                assignment E check0 x0 None ctxt"
    by (simp add: assignment_discard_asg_upd)
  have f: "\<exists>ds. errors (snd (assignment E check0 x0 None ctxt)) = errors check @ ds \<and>
                length ds \<le> 1 \<and>
                (\<forall>d \<in> set ds. err_code d \<in> {UntypedNilUse, TruncatedFloat, NumericOverflow,
                                              IncompatibleAssign, WrongTypeArgCount} \<and>
                               err_code d \<noteq> UnassignableOperand \<and>
                               err_code d \<noteq> UnaddressableFieldAssign)"
  proof (cases "isUntyped (opd_typ x)")
    case False
    obtain ds where g: "errors (generic_check E check x ctxt) = errors check @ ds" "length ds \<le> 1"
      "\<forall>d \<in> set ds. err_code d = WrongTypeArgCount" using gen_errors by blast
    have "assignment E check0 x0 None ctxt = (x, generic_check E check x ctxt)"
      using b False by blast
    then have "errors (snd (assignment E check0 x0 None ctxt)) = errors check @ ds"
      using g(1) by simp
    then show ?thesis using g(2,3) by auto
  next
    case True
    show ?thesis
    proof (cases "isNil x")
      case T: True
      have "assignment E check0 x0 None ctxt =
              (x\<lparr>opd_mode := invalid\<rparr>,
               errorf E check (At_operand x) UntypedNilUse ''use of untyped nil in %s''
                 [A_string ctxt])" using a True T by blast
      then have "errors (snd (assignment E check0 x0 None ctxt)) =
          errors check @ [\<lparr>err_code = UntypedNilUse, err_soft = False,
             err_desc = [(At_operand x, sprintf E ''use of untyped nil in %s'' [A_string ctxt])]\<rparr>]"
        by (simp add: errors_errorf)
      then show ?thesis by simp
    next
      case F: False
      obtain newType v c
        where r: "implicitTypeAndValue E check x (Some (Default (opd_typ x))) = (newType, v, c)"
        by (cases "implicitTypeAndValue E check x (Some (Default (opd_typ x)))") auto
      show ?thesis
      proof (cases "c = Code_0")
        case cz: True
        define c2 where "c2 = (if newType \<noteq> opd_typ x
                  then updateExprType
                         (case v of None \<Rightarrow> check
                          | Some v' \<Rightarrow> updateExprVal check (opd_expr x) v')
                         (opd_expr x) newType False
                  else (case v of None \<Rightarrow> check
                        | Some v' \<Rightarrow> updateExprVal check (opd_expr x) v'))"
        define x2 where "x2 = (case v of None \<Rightarrow> x | Some v' \<Rightarrow> x\<lparr>opd_val := Some v'\<rparr>)\<lparr>opd_typ := newType\<rparr>"
        have ec: "errors c2 = errors check"
          unfolding c2_def by (cases v) (simp_all add: errors_updateExprType errors_updateExprVal)
        obtain ds where g: "errors (generic_check E c2 x2 ctxt) = errors c2 @ ds" "length ds \<le> 1"
          "\<forall>d \<in> set ds. err_code d = WrongTypeArgCount" using gen_errors by blast
        have "assignment E check0 x0 None ctxt = (x2, generic_check E c2 x2 ctxt)"
          unfolding c2_def x2_def using d0[OF True F r[unfolded cz]] .
        then have "errors (snd (assignment E check0 x0 None ctxt)) = errors check @ ds"
          using g(1) ec by simp
        then show ?thesis using g(2,3) by auto
      next
        case cn: False
        define cc where "cc = (if c = TruncatedFloat \<or> c = NumericOverflow then c else IncompatibleAssign)"
        have cc: "cc \<in> {UntypedNilUse, TruncatedFloat, NumericOverflow, IncompatibleAssign, WrongTypeArgCount}"
          "cc \<noteq> UnassignableOperand" "cc \<noteq> UnaddressableFieldAssign"
          unfolding cc_def by auto
        have "\<exists>msg. assignment E check0 x0 None ctxt =
              (x\<lparr>opd_mode := invalid\<rparr>, check_error check (At_operand x) cc msg)"
          unfolding cc_def using c True F r cn by blast
        then obtain msg where "errors (snd (assignment E check0 x0 None ctxt)) =
            errors check @ [\<lparr>err_code = cc, err_soft = False, err_desc = [(At_operand x, msg)]\<rparr>]"
          by (auto simp: errors_check_error)
        then show ?thesis using cc by simp
      qed
    qed
  qed
  show ?thesis
    by (intro conjI) (rule a, rule b, rule c, rule d, rule ge, rule e, rule f)
qed

theorem assignment_discard_witness:
  "singleValue Env0 Checker0 x_nil = (x_nil, Checker0) \<and>
   opd_mode x_nil \<in> set assignable_modes \<and> isUntyped (opd_typ x_nil) \<and> isNil x_nil \<and>
   opd_mode (fst (assignment Env0 Checker0 x_nil None ''assignment to _ identifier'')) = invalid \<and>
   map err_code (errors (snd (assignment Env0 Checker0 x_nil None ''assignment to _ identifier'')))
     = [UntypedNilUse] \<and>
   singleValue Env0 Checker0 x_five = (x_five, Checker0) \<and>
   opd_mode x_five \<in> set assignable_modes \<and> isUntyped (opd_typ x_five) \<and> \<not> isNil x_five \<and>
   implicitTypeAndValue Env0 Checker0 x_five (Some (Default (opd_typ x_five))) =
     (Basic Int_kind, Some (IntVal 5), Code_0) \<and>
   fst (assignment Env0 Checker0 x_five None ''assignment to _ identifier'') =
     x_five\<lparr>opd_typ := Basic Int_kind\<rparr> \<and>
   errors (snd (assignment Env0 Checker0 x_five None ''assignment to _ identifier'')) = [] \<and>
   singleValue Env0 Checker0 x_big = (x_big, Checker0) \<and>
   opd_mode x_big \<in> set assignable_modes \<and> isUntyped (opd_typ x_big) \<and> \<not> isNil x_big \<and>
   implicitTypeAndValue Env0 Checker0 x_big (Some (Default (opd_typ x_big))) =
     (Basic Int_kind, None, NumericOverflow) \<and>
   errors (snd (assignment Env0 Checker0 x_big None ''assignment to _ identifier'')) =
     [\<lparr>err_code = NumericOverflow, err_soft = False,
       err_desc = [(At_operand x_big, ''cannot use %s as %s value in %s (overflows)'')]\<rparr>]"
proof -
  have h1: "singleValue Env0 Checker0 x_nil = (x_nil, Checker0)" by (simp add: Env0_def)
  have h2: "opd_mode x_nil \<in> set assignable_modes" by (simp add: x_nil_def assignable_modes_def)
  have h3: "isUntyped (opd_typ x_nil) \<and> isNil x_nil" by (simp add: x_nil_def isNil_def)
  note tn = assignment_discard[OF h1 h2, where ctxt = "''assignment to _ identifier''"]
  have n: "assignment Env0 Checker0 x_nil None ''assignment to _ identifier'' =
              (x_nil\<lparr>opd_mode := invalid\<rparr>,
               errorf Env0 Checker0 (At_operand x_nil) UntypedNilUse ''use of untyped nil in %s''
                 [A_string ''assignment to _ identifier''])"
    by (rule tn[THEN conjunct1, rule_format, OF h3])
  have n1: "opd_mode (fst (assignment Env0 Checker0 x_nil None ''assignment to _ identifier'')) = invalid"
    unfolding n by simp
  have n2: "map err_code (errors (snd (assignment Env0 Checker0 x_nil None ''assignment to _ identifier'')))
     = [UntypedNilUse]"
    unfolding n by (simp add: errors_errorf Checker0_def)
  have k1: "singleValue Env0 Checker0 x_five = (x_five, Checker0)" by (simp add: Env0_def)
  have k2: "opd_mode x_five \<in> set assignable_modes" by (simp add: x_five_def assignable_modes_def)
  have k3: "isUntyped (opd_typ x_five)" by (simp add: x_five_def)
  have k3': "\<not> isNil x_five" by (simp add: x_five_def isNil_def)
  have k4: "implicitTypeAndValue Env0 Checker0 x_five (Some (Default (opd_typ x_five))) =
     (Basic Int_kind, Some (IntVal 5), Code_0)"
    by (simp add: Env0_def implicitTypeAndValue0_def x_five_def representable_def)
  note tf = assignment_discard[OF k1 k2, where ctxt = "''assignment to _ identifier''"]
  have f: "assignment Env0 Checker0 x_five None ''assignment to _ identifier'' =
              ((case Some (IntVal 5) of None \<Rightarrow> x_five | Some v' \<Rightarrow> x_five\<lparr>opd_val := Some v'\<rparr>)
                 \<lparr>opd_typ := Basic Int_kind\<rparr>,
               generic_check Env0
                 (if Basic Int_kind \<noteq> opd_typ x_five
                  then updateExprType
                         (case Some (IntVal 5) of None \<Rightarrow> Checker0
                          | Some v' \<Rightarrow> updateExprVal Checker0 (opd_expr x_five) v')
                         (opd_expr x_five) (Basic Int_kind) False
                  else (case Some (IntVal 5) of None \<Rightarrow> Checker0
                        | Some v' \<Rightarrow> updateExprVal Checker0 (opd_expr x_five) v'))
                 ((case Some (IntVal 5) of None \<Rightarrow> x_five | Some v' \<Rightarrow> x_five\<lparr>opd_val := Some v'\<rparr>)
                    \<lparr>opd_typ := Basic Int_kind\<rparr>)
                 ''assignment to _ identifier'')"
    by (rule tf[THEN conjunct2, THEN conjunct2, THEN conjunct2, THEN conjunct1, rule_format,
          OF conjI[OF k3 conjI[OF k3' k4]], THEN conjunct1])
  have f1: "fst (assignment Env0 Checker0 x_five None ''assignment to _ identifier'') =
     x_five\<lparr>opd_typ := Basic Int_kind\<rparr>"
    unfolding f by (simp add: x_five_def)
  have f2: "errors (snd (assignment Env0 Checker0 x_five None ''assignment to _ identifier'')) = []"
    unfolding f
    by (simp add: x_five_def generic_check_def errors_updateExprType errors_updateExprVal
        Checker0_def)
  have b1: "singleValue Env0 Checker0 x_big = (x_big, Checker0)" by (simp add: Env0_def)
  have b2: "opd_mode x_big \<in> set assignable_modes" by (simp add: x_big_def assignable_modes_def)
  have b3: "isUntyped (opd_typ x_big)" by (simp add: x_big_def)
  have b3': "\<not> isNil x_big" by (simp add: x_big_def isNil_def)
  have b4: "implicitTypeAndValue Env0 Checker0 x_big (Some (Default (opd_typ x_big))) =
     (Basic Int_kind, None, NumericOverflow)"
    by (simp add: Env0_def implicitTypeAndValue0_def x_big_def representable_def)
  have b5: "NumericOverflow \<noteq> Code_0" by simp
  note tb = assignment_discard[OF b1 b2, where ctxt = "''assignment to _ identifier''"]
  have g: "assignment Env0 Checker0 x_big None ''assignment to _ identifier'' =
              (x_big\<lparr>opd_mode := invalid\<rparr>,
               check_error Checker0 (At_operand x_big)
                 (if NumericOverflow = TruncatedFloat \<or> NumericOverflow = NumericOverflow
                  then NumericOverflow else IncompatibleAssign)
                 (sprintf Env0 ''cannot use %s as %s value in %s''
                    [A_operand x_big, A_Type (Some (Default (opd_typ x_big))),
                     A_string ''assignment to _ identifier''] @
                  (if NumericOverflow = TruncatedFloat then '' (truncated)''
                   else if NumericOverflow = NumericOverflow then '' (overflows)'' else [])))"
    by (rule tb[THEN conjunct2, THEN conjunct2, THEN conjunct1, rule_format,
          OF conjI[OF b3 conjI[OF b3' conjI[OF b4 b5]]]])
  have g1: "errors (snd (assignment Env0 Checker0 x_big None ''assignment to _ identifier'')) =
     [\<lparr>err_code = NumericOverflow, err_soft = False,
       err_desc = [(At_operand x_big, ''cannot use %s as %s value in %s (overflows)'')]\<rparr>]"
    unfolding g by (simp add: errors_check_error Checker0_def Env0_def)
  show ?thesis
    by (intro conjI)
       (rule h1, rule h2, rule h3[THEN conjunct1], rule h3[THEN conjunct2], rule n1, rule n2,
        rule k1, rule k2, rule k3, rule k3', rule k4, rule f1, rule f2,
        rule b1, rule b2, rule b3, rule b3', rule b4, rule g1)
qed

subsection \<open>An operand in a mode that cannot be assigned\<close>

text \<open>
  In general: in a mode that is neither invalid nor assignable the operand is returned as
  it is, with one \<^verbatim>\<open>IncompatibleAssign\<close> error reported.
\<close>

lemma assignment_illegal_mode:
  assumes "singleValue E check0 x0 = (x, check)"
    and "opd_mode x \<noteq> invalid"
    and "opd_mode x \<notin> set assignable_modes"
  shows "assignment E check0 x0 T ctxt =
           (x, errorf E check (At_operand x) IncompatibleAssign ''cannot assign %s to %s in %s''
                 [A_operand x, A_Type T, A_string ctxt])"
  using assms by (simp add: assignment_def)

text \<open>
  Claim C3. For an operand whose mode is neither invalid nor assignable, \<^verbatim>\<open>assignment\<close>
  reports \<^verbatim>\<open>cannot assign\<close> and stops. The doc comment of the function says the mode
  is set to invalid when the assignment fails; evaluated on a cgo function used as a value,
  the function reports once and leaves the mode as it was.
\<close>
theorem assignment_cgofunc_mode_kept:
  "singleValue Env0 Checker0 x_cgo = (x_cgo, Checker0) \<and>
   opd_mode x_cgo \<noteq> invalid \<and> opd_mode x_cgo \<notin> set assignable_modes \<and>
   opd_mode (fst (assignment Env0 Checker0 x_cgo (Some (Basic Int_kind)) ''assignment'')) = cgofunc \<and>
   errors (snd (assignment Env0 Checker0 x_cgo (Some (Basic Int_kind)) ''assignment'')) =
     [\<lparr>err_code = IncompatibleAssign, err_soft = False,
       err_desc = [(At_operand x_cgo, ''cannot assign %s to %s in %s'')]\<rparr>]"
  by (simp add: assignment_def Env0_def x_cgo_def assignable_modes_def errors_errorf Checker0_def)

subsection \<open>Generic function values\<close>

text \<open>
  Claim C4. For an operand whose type is a signature with one or more type parameters,
  \<^verbatim>\<open>assignment\<close> reports \<^verbatim>\<open>WrongTypeArgCount\<close> and leaves the operand as it is; with
  no target type it returns there, and with a target type the assignability check
  runs on the same operand: the operand is unchanged when it passes, and is invalidated
  with a second report when it fails.
\<close>
theorem assignment_generic_function:
  assumes "singleValue E check0 x0 = (x, check)"
    and "opd_mode x \<in> set assignable_modes"
    and "under (opd_typ x) = Signature n ps rs"
    and "n > 0"
  shows "\<exists>check'. check' = errorf E check (At_operand x) WrongTypeArgCount
                     ''cannot use generic function %s without instantiation in %s''
                     [A_operand x, A_string ctxt]
          \<and> (T = None \<longrightarrow> assignment E check0 x0 T ctxt = (x, check'))
          \<and> (\<forall>t. T = Some t \<and> fst (assignableTo E check' x t) \<longrightarrow>
                 assignment E check0 x0 T ctxt = (x, check'))
          \<and> (\<forall>t. T = Some t \<and> \<not> fst (assignableTo E check' x t) \<longrightarrow>
                 fst (assignment E check0 x0 T ctxt) = x\<lparr>opd_mode := invalid\<rparr> \<and>
                 (\<exists>d. errors (snd (assignment E check0 x0 T ctxt)) = errors check' @ [d] \<and>
                      err_code d = fst (snd (assignableTo E check' x t))))"
proof -
  have ni: "opd_mode x \<noteq> invalid" using assms(2) by (auto simp: assignable_modes_def)
  have ty: "\<not> isUntyped (opd_typ x)" using assms(3) by (rule under_Signature_typed)
  let ?c = "errorf E check (At_operand x) WrongTypeArgCount
                     ''cannot use generic function %s without instantiation in %s''
                     [A_operand x, A_string ctxt]"
  have g: "generic_check E check x ctxt = ?c"
    using assms(3,4) by (simp add: generic_check_def)
  have a: "assignment E check0 x0 T ctxt = assignable_check E ?c x T ctxt"
    using assms(1,2) ni ty g by (simp add: assignment_def)
  have 1: "T = None \<longrightarrow> assignment E check0 x0 T ctxt = (x, ?c)"
    using a by (auto simp: assignable_check_def)
  have 2: "\<forall>t. T = Some t \<and> fst (assignableTo E ?c x t) \<longrightarrow>
                 assignment E check0 x0 T ctxt = (x, ?c)"
    using a by (auto simp: assignable_check_def split: prod.split)
  have 3: "\<forall>t. T = Some t \<and> \<not> fst (assignableTo E ?c x t) \<longrightarrow>
                 fst (assignment E check0 x0 T ctxt) = x\<lparr>opd_mode := invalid\<rparr> \<and>
                 (\<exists>d. errors (snd (assignment E check0 x0 T ctxt)) = errors ?c @ [d] \<and>
                      err_code d = fst (snd (assignableTo E ?c x t)))"
    using a by (auto simp: assignable_check_def errors_errorf split: prod.split)
  from 1 2 3 show ?thesis by blast
qed

theorem assignment_generic_function_witness:
  "singleValue Env0 Checker0 x_generic = (x_generic, Checker0) \<and>
   opd_mode x_generic \<in> set assignable_modes \<and>
   under (opd_typ x_generic) = Signature 1 (Tuple [TypeParam ''T'' (Interface [])]) (Tuple []) \<and>
   assignment Env0 Checker0 x_generic None ''assignment'' =
     (x_generic, errorf Env0 Checker0 (At_operand x_generic) WrongTypeArgCount
                     ''cannot use generic function %s without instantiation in %s''
                     [A_operand x_generic, A_string ''assignment''])"
proof -
  have h1: "singleValue Env0 Checker0 x_generic = (x_generic, Checker0)" by (simp add: Env0_def)
  have h2: "opd_mode x_generic \<in> set assignable_modes" by (simp add: x_generic_def assignable_modes_def)
  have h3: "under (opd_typ x_generic) = Signature 1 (Tuple [TypeParam ''T'' (Interface [])]) (Tuple [])"
    by (simp add: x_generic_def)
  have h4: "(1::nat) > 0" by simp
  from assignment_generic_function[OF h1 h2 h3 h4, where T = None and ctxt = "''assignment''"]
  show ?thesis using h1 h2 h3 by simp
qed

lemma store_set_used: "store (set_used check a b) a' = (if a' = a then (store check a)\<lparr>var_used := b\<rparr> else store check a')"
  by (simp add: set_used_def)

lemma store_set_typ: "store (set_typ check a t) a' = (if a' = a then (store check a)\<lparr>var_typ := t\<rparr> else store check a')"
  by (simp add: set_typ_def)

lemma errors_set_used: "errors (set_used check a b) = errors check"
  by (simp add: set_used_def)

lemma errors_set_typ: "errors (set_typ check a t) = errors check"
  by (simp add: set_typ_def)

lemma store_errorf: "store (errorf E check at c format args) = store check"
  by (simp add: errorf_def check_error_def report_def)

subsection \<open>initVar and the used flag\<close>

text \<open>
  Claim C5. Every failing \<^verbatim>\<open>initVar\<close> should mark the variable used and return
  \<^verbatim>\<open>nil\<close>. Evaluated on a variable without a declared type and the nil literal
  (\<^verbatim>\<open>var x = nil\<close>): the result is \<^verbatim>\<open>nil\<close>, the declared type is forced to invalid
  and one \<^verbatim>\<open>UntypedNilUse\<close> error is reported, but the used flag is still false.
\<close>
theorem initVar_untyped_nil_not_marked_used:
  "var_typ (store Checker0 0) = None \<and> \<not> var_used (store Checker0 0) \<and>
   opd_mode x_nil \<noteq> invalid \<and> opd_typ x_nil = Basic UntypedNil \<and>
   fst (initVar Env0 Checker0 0 x_nil ''variable declaration'') = None \<and>
   var_typ (store (snd (snd (initVar Env0 Checker0 0 x_nil ''variable declaration''))) 0)
     = Some (Basic Invalid) \<and>
   \<not> var_used (store (snd (snd (initVar Env0 Checker0 0 x_nil ''variable declaration''))) 0) \<and>
   map err_code (errors (snd (snd (initVar Env0 Checker0 0 x_nil ''variable declaration''))))
     = [UntypedNilUse]"
  by (simp add: initVar_def x_nil_def Checker0_def Var0_def store_set_typ errors_set_typ errors_errorf
      store_errorf)

text \<open>
  The two other failure paths of \<^verbatim>\<open>initVar\<close> do mark the variable used, and a
  success returns the operand's type.
\<close>

lemma initVar_other_failures_mark_used:
  assumes "initVar E check lhs x ctxt = (None, x', check')"
    and "\<not> (opd_mode x \<noteq> invalid \<and> opd_typ x = Basic UntypedNil \<and> var_typ (store check lhs) = None)"
  shows "var_used (store check' lhs)"
  using assms
  by (auto simp: initVar_def store_set_used split: if_splits prod.splits)

lemma initVar_success:
  assumes "initVar E check lhs x ctxt = (Some t, x', check')"
  shows "t = opd_typ x' \<and> opd_mode x' \<noteq> invalid"
  using assms
  by (auto simp: initVar_def split: if_splits prod.splits)

subsection \<open>initConst writes the value only on success\<close>

text \<open>
  Claim C10. \<^verbatim>\<open>initConst\<close> panics only at its assertion (a constant operand whose type
  is not a constant type). Otherwise: when the operand is invalid or not a constant, or
  either type is the invalid sentinel, the operand and the value of the constant are
  unchanged and the type is forced to invalid if unset; else the type is the declared one
  (the operand's if unset), the operand and checker are those of the delegated
  \<^verbatim>\<open>assignment\<close>, and the value is copied from the operand exactly when that
  assignment left the operand valid.
\<close>
theorem initConst_value:
  "case initConst E check lhs x of
     Inl p \<Rightarrow> opd_mode x = constant_mode \<and> \<not> isConstType E (opd_typ x)
   | Inr (lhs', x', check') \<Rightarrow>
       (if opd_mode x = constant_mode \<and> opd_typ x \<noteq> Basic Invalid \<and>
           const_typ lhs \<noteq> Some (Basic Invalid)
        then (x', check') = assignment E check x (const_typ lhs') ''constant declaration'' \<and>
             const_typ lhs' = (if const_typ lhs = None then Some (opd_typ x) else const_typ lhs) \<and>
             const_val lhs' = (if opd_mode x' = invalid then const_val lhs else opd_val x')
        else x' = x \<and>
             const_typ lhs' = (if const_typ lhs = None then Some (Basic Invalid) else const_typ lhs) \<and>
             const_val lhs' = const_val lhs)"
  by (auto simp: initConst_def Let_def split: prod.splits)

theorem initConst_value_witness:
  "initConst Env0 Checker0 c_unset x_five =
     Inr (\<lparr>const_typ = Some (Basic UntypedInt), const_val = Some (IntVal 5)\<rparr>, x_five,
          updateExprVal Checker0 (BasicLit ''5'') (IntVal 5)) \<and>
   (\<exists>x' check'. initConst Env0 Checker0 c_int x_big = Inr (c_int, x', check') \<and> opd_mode x' = invalid)"
proof -
  have a: "assignment Env0 Checker0 x_five (Some (Basic UntypedInt)) ''constant declaration'' =
             (x_five, updateExprVal Checker0 (BasicLit ''5'') (IntVal 5))"
    by (simp add: assignment_def assignment_untyped_def Env0_def x_five_def assignable_modes_def
      isNil_def conversion_target_def implicitTypeAndValue0_def representable_def Let_def
      isNonTypeParamInterface_def generic_check_def assignable_check_def assignableTo0_def)
  have b: "opd_mode (fst (assignment Env0 Checker0 x_big (Some (Basic Int_kind)) ''constant declaration'')) = invalid"
    by (simp add: assignment_def assignment_untyped_def Env0_def x_big_def assignable_modes_def
      isNil_def conversion_target_def implicitTypeAndValue0_def representable_def Let_def
      isNonTypeParamInterface_def)
  have 1: "initConst Env0 Checker0 c_unset x_five =
     Inr (\<lparr>const_typ = Some (Basic UntypedInt), const_val = Some (IntVal 5)\<rparr>, x_five,
          updateExprVal Checker0 (BasicLit ''5'') (IntVal 5))"
  proof (cases "initConst Env0 Checker0 c_unset x_five")
    case (Inl p)
    with initConst_value[where E = Env0 and check = Checker0 and lhs = c_unset and x = x_five] show ?thesis
      by (simp add: Env0_def x_five_def)
  next
    case (Inr r)
    obtain lhs' x' check' where r: "r = (lhs', x', check')" by (cases r) auto
    from initConst_value[where E = Env0 and check = Checker0 and lhs = c_unset and x = x_five] Inr r
    have "(x', check') = assignment Env0 Checker0 x_five (const_typ lhs') ''constant declaration'' \<and>
          const_typ lhs' = Some (Basic UntypedInt) \<and>
          const_val lhs' = (if opd_mode x' = invalid then None else opd_val x')"
      by (simp add: x_five_def c_unset_def)
    then have "x' = x_five \<and> check' = updateExprVal Checker0 (BasicLit ''5'') (IntVal 5) \<and> const_typ lhs' = Some (Basic UntypedInt)
       \<and> const_val lhs' = Some (IntVal 5)"
      using a by (auto simp: x_five_def)
    then show ?thesis using Inr r by (cases lhs') simp
  qed
  have 2: "\<exists>x' check'. initConst Env0 Checker0 c_int x_big = Inr (c_int, x', check') \<and> opd_mode x' = invalid"
  proof (cases "initConst Env0 Checker0 c_int x_big")
    case (Inl p)
    with initConst_value[where E = Env0 and check = Checker0 and lhs = c_int and x = x_big] show ?thesis
      by (simp add: Env0_def x_big_def)
  next
    case (Inr r)
    obtain lhs' x' check' where r: "r = (lhs', x', check')" by (cases r) auto
    from initConst_value[where E = Env0 and check = Checker0 and lhs = c_int and x = x_big] Inr r
    have h: "(x', check') = assignment Env0 Checker0 x_big (const_typ lhs') ''constant declaration'' \<and>
          const_typ lhs' = Some (Basic Int_kind) \<and>
          const_val lhs' = (if opd_mode x' = invalid then None else opd_val x')"
      by (simp add: x_big_def c_int_def)
    then have "x' = fst (assignment Env0 Checker0 x_big (Some (Basic Int_kind)) ''constant declaration'')"
      by (metis fst_conv)
    then have "opd_mode x' = invalid" using b by simp
    then have "lhs' = c_int" using h by (cases lhs') (simp add: c_int_def)
    then show ?thesis using Inr r \<open>opd_mode x' = invalid\<close> by simp
  qed
  from 1 2 show ?thesis by simp
qed

subsection \<open>Arity mismatch in initVars\<close>

lemma typesSummary_elem_total: "\<exists>s. typesSummary_elem E False n i t = Inr s"
proof (cases t)
  case None
  then show ?thesis by (simp add: typesSummary_elem_def)
next
  case (Some t')
  show ?thesis
  proof (cases "isUntyped t'")
    case True
    then obtain k where "t' = Basic k" by (cases t') auto
    with Some True show ?thesis by (simp add: typesSummary_elem_def)
  next
    case False
    with Some show ?thesis by (simp add: typesSummary_elem_def)
  qed
qed

lemma typesSummary_loop_total: "\<exists>res. typesSummary_loop E False n i ts = Inr res"
proof (induction ts arbitrary: i)
  case Nil
  then show ?case by simp
next
  case (Cons t ts)
  obtain s where s: "typesSummary_elem E False n i t = Inr s"
    using typesSummary_elem_total by blast
  obtain res where "typesSummary_loop E False n (Suc i) ts = Inr res"
    using Cons.IH by blast
  with s show ?case by simp
qed

lemma typesSummary_total: "\<exists>s. typesSummary E list False = Inr s"
proof -
  obtain res where "typesSummary_loop E False (length list) 0 list = Inr res"
    using typesSummary_loop_total by blast
  then show ?thesis by (simp add: typesSummary_def)
qed

lemma errors_invalidate_lhs: "errors (invalidate_lhs check lhs) = errors check"
  by (induction lhs arbitrary: check) (simp_all add: Let_def errors_set_used errors_set_typ)




lemma assignError_errors:
  assumes "orig_rhs \<noteq> []"
  shows "\<exists>check' d. assignError E check orig_rhs nvars nvals = Inr check' \<and>
           errors check' = errors check @ [d] \<and> err_code d = WrongAssignCount \<and>
           store check' = store check"
  using assms
  by (cases orig_rhs)
     (auto simp: assignError_def Let_def errors_errorf store_errorf split: option.split)

text \<open>
  The result of \<^verbatim>\<open>initVars\<close> on an arity mismatch, in terms of the checker after the
  invalidation loop.
\<close>

lemma initVars_mismatch:
  assumes "exprList E check0 orig_rhs (length lhs = 2 \<and> returnStmt = None) = ((rhs, commaOk), check)"
    and "length lhs \<noteq> length rhs"
  shows "initVars E check0 lhs orig_rhs returnStmt =
     (if \<exists>x \<in> set rhs. opd_mode x = invalid then Inr (invalidate_lhs check lhs)
      else case returnStmt of
        None \<Rightarrow> assignError E (invalidate_lhs check lhs) orig_rhs (length lhs) (length rhs)
      | Some stmt \<Rightarrow>
          Inr (report (invalidate_lhs check lhs)
                 \<lparr>err_code = WrongResultCount, err_soft = False,
                  err_desc =
                    [(if length rhs > length lhs then At_Expr (opd_expr (rhs ! length lhs))
                      else if rhs \<noteq> [] then At_Expr (opd_expr (last rhs))
                      else At_Stmt stmt,
                      sprintf E ''%s return values''
                        [A_string (if length rhs > length lhs then ''too many'' else ''not enough'')]),
                     (At_Pos nopos, sprintf E ''have %s''
                        [A_string (projr (typesSummary E (operandTypes rhs) False))]),
                     (At_Pos nopos, sprintf E ''want %s''
                        [A_string (projr (typesSummary E (varTypes (invalidate_lhs check lhs) lhs) False))])]\<rparr>))"
proof -
  obtain h where h: "typesSummary E (operandTypes rhs) False = Inr h"
    using typesSummary_total by blast
  obtain w where w: "typesSummary E (varTypes (invalidate_lhs check lhs) lhs) False = Inr w"
    using typesSummary_total by blast
  show ?thesis
    using assms h w
    by (simp add: initVars_def Let_def last_conv_nth split: option.split)
qed




text \<open>
  Claim C7. In a return statement with an arity mismatch and no invalid operand, the one
  diagnostic has code \<^verbatim>\<open>WrongResultCount\<close>; it is placed at the first extra value
  and says \<^verbatim>\<open>too many\<close> when there are more values than results, at the last value
  and says \<^verbatim>\<open>not enough\<close> when there are fewer values and at least one, and at the
  return statement itself when there is none; two lines with the type summaries follow.
\<close>

theorem initVars_return_position:
  assumes "exprList E check0 orig_rhs False = ((rhs, commaOk), check)"
    and "length lhs \<noteq> length rhs"
    and "\<forall>x \<in> set rhs. opd_mode x \<noteq> invalid"
  shows "\<exists>check' d have_s want_s.
           initVars E check0 lhs orig_rhs (Some stmt) = Inr check' \<and>
           errors check' = errors check @ [d] \<and>
           err_code d = WrongResultCount \<and>
           typesSummary E (operandTypes rhs) False = Inr have_s \<and>
           typesSummary E (varTypes (invalidate_lhs check lhs) lhs) False = Inr want_s \<and>
           err_desc d =
             [(if length rhs > length lhs then At_Expr (opd_expr (rhs ! length lhs))
               else if rhs \<noteq> [] then At_Expr (opd_expr (last rhs))
               else At_Stmt stmt,
               sprintf E ''%s return values''
                 [A_string (if length rhs > length lhs then ''too many'' else ''not enough'')]),
              (At_Pos nopos, sprintf E ''have %s'' [A_string have_s]),
              (At_Pos nopos, sprintf E ''want %s'' [A_string want_s])]"
proof -
  have ev: "exprList E check0 orig_rhs (length lhs = 2 \<and> Some stmt = None) = ((rhs, commaOk), check)"
    using assms(1) by simp
  have ni: "\<not> (\<exists>x \<in> set rhs. opd_mode x = invalid)" using assms(3) by blast
  obtain h where h: "typesSummary E (operandTypes rhs) False = Inr h"
    using typesSummary_total by blast
  obtain w where w: "typesSummary E (varTypes (invalidate_lhs check lhs) lhs) False = Inr w"
    using typesSummary_total by blast
  show ?thesis
    using initVars_mismatch[OF ev assms(2)] ni h w
    by (simp add: errors_report errors_invalidate_lhs)
qed

theorem initVars_return_position_witness:
  "exprList Env0 Checker0 [BasicLit ''a'', BasicLit ''b''] False =
     (([\<lparr>opd_mode = constant_mode, opd_typ = Basic UntypedString,
          opd_val = Some (StringVal ''a''), opd_expr = BasicLit ''a''\<rparr>,
         \<lparr>opd_mode = constant_mode, opd_typ = Basic UntypedString,
          opd_val = Some (StringVal ''b''), opd_expr = BasicLit ''b''\<rparr>], False), Checker0) \<and>
   (\<exists>check' d. initVars Env0 Checker0 [0] [BasicLit ''a'', BasicLit ''b'']
                 (Some (ReturnStmt [BasicLit ''a'', BasicLit ''b''])) = Inr check' \<and>
       errors check' = [d] \<and> err_code d = WrongResultCount \<and>
       hd (err_desc d) = (At_Expr (BasicLit ''b''), ''%s return values''))"
proof -
  let ?a = "\<lparr>opd_mode = constant_mode, opd_typ = Basic UntypedString,
          opd_val = Some (StringVal ''a''), opd_expr = BasicLit ''a''\<rparr>"
  let ?b = "\<lparr>opd_mode = constant_mode, opd_typ = Basic UntypedString,
          opd_val = Some (StringVal ''b''), opd_expr = BasicLit ''b''\<rparr>"
  have h1: "exprList Env0 Checker0 [BasicLit ''a'', BasicLit ''b''] False = (([?a, ?b], False), Checker0)"
    by (simp add: Env0_def check_expr0_def)
  have h2: "length [0::nat] \<noteq> length [?a, ?b]" by simp
  have h3: "\<forall>x \<in> set [?a, ?b]. opd_mode x \<noteq> invalid" by simp
  from initVars_return_position[OF h1 h2 h3, where stmt = "ReturnStmt [BasicLit ''a'', BasicLit ''b'']"]
  obtain check' d where "initVars Env0 Checker0 [0] [BasicLit ''a'', BasicLit ''b'']
                 (Some (ReturnStmt [BasicLit ''a'', BasicLit ''b''])) = Inr check'"
    and "errors check' = errors Checker0 @ [d]" and "err_code d = WrongResultCount"
    and "hd (err_desc d) = (At_Expr (opd_expr ([?a, ?b] ! length [0::nat])), sprintf Env0 ''%s return values'' [A_string ''too many''])"
    by auto
  then show ?thesis using h1 by (auto simp: Checker0_def Env0_def)
qed

subsection \<open>lhsVar does not count the target as a use\<close>

lemma unparen_Name_not_selector:
  "unparen e = Name n \<Longrightarrow> (case e of SelectorExpr a b \<Rightarrow> f a b | _ \<Rightarrow> g) = g"
  by (cases e) auto

text \<open>
  Claim C8. When the left-hand side is a (possibly parenthesized) identifier other than
  the blank one that denotes a variable of the checked package, and the evaluator
  records the evaluated expression in the operand, the checker after \<^verbatim>\<open>lhsVar\<close> is
  the checker after the evaluation with the used flag of that variable put back to its
  value from before the call, plus at most the one error \<^verbatim>\<open>lhsVar\<close> itself reports
  for an operand that is not addressable. The flag is therefore unchanged.
\<close>

theorem lhsVar_restores_used:
  assumes "unparen lhs = Name n"
    and "n \<noteq> ''_''"
    and "lookup E check n = Some (VarObj w)"
    and "var_pkg (store check w) = pkg check"
    and "check_expr E check lhs = (x, check1)"
    and "opd_expr x = lhs"
  shows "var_used (store (snd (lhsVar E check lhs)) w) = var_used (store check w) \<and>
         snd (lhsVar E check lhs) =
           (if opd_mode x = invalid \<or> opd_typ x = Basic Invalid \<or>
               opd_mode x = variable \<or> opd_mode x = mapindex
            then set_used check1 w (var_used (store check w))
            else errorf E (set_used check1 w (var_used (store check w))) (At_operand x)
                   UnassignableOperand ''cannot assign to %s'' [A_operand x])"
proof -
  have sel: "\<And>f g. (case opd_expr x of SelectorExpr a b \<Rightarrow> f a b | _ \<Rightarrow> g) = g"
    using assms(1,6) by (simp add: unparen_Name_not_selector)
  have r: "snd (lhsVar E check lhs) =
           (if opd_mode x = invalid \<or> opd_typ x = Basic Invalid \<or>
               opd_mode x = variable \<or> opd_mode x = mapindex
            then set_used check1 w (var_used (store check w))
            else errorf E (set_used check1 w (var_used (store check w))) (At_operand x)
                   UnassignableOperand ''cannot assign to %s'' [A_operand x])"
    using assms(1-5) by (simp add: lhsVar_def Let_def sel)
  show ?thesis
    by (simp add: r store_errorf store_set_used)
qed

theorem lhsVar_restores_used_witness:
  "unparen (ParenExpr (Name ''x'')) = Name ''x'' \<and>
   lookup Env0 Checker_x ''x'' = Some (VarObj 0) \<and>
   var_pkg (store Checker_x 0) = pkg Checker_x \<and>
   var_used (store (snd (check_expr Env0 Checker_x (ParenExpr (Name ''x'')))) 0) \<and>
   opd_expr (fst (check_expr Env0 Checker_x (ParenExpr (Name ''x'')))) = ParenExpr (Name ''x'') \<and>
   \<not> var_used (store Checker_x 0) \<and>
   \<not> var_used (store (snd (lhsVar Env0 Checker_x (ParenExpr (Name ''x'')))) 0)"
proof -
  have h1: "unparen (ParenExpr (Name ''x'')) = Name ''x''" by simp
  have h2: "''x'' \<noteq> ''_''" by simp
  have h3: "lookup Env0 Checker_x ''x'' = Some (VarObj 0)"
    by (simp add: Env0_def Checker_x_def Checker0_def)
  have h4: "var_pkg (store Checker_x 0) = pkg Checker_x"
    by (simp add: Checker_x_def Checker0_def)
  obtain x check1 where h5: "check_expr Env0 Checker_x (ParenExpr (Name ''x'')) = (x, check1)"
    by (cases "check_expr Env0 Checker_x (ParenExpr (Name ''x''))") auto
  have e: "check_expr Env0 Checker_x (ParenExpr (Name ''x'')) =
        (\<lparr>opd_mode = variable, opd_typ = Basic String, opd_val = None,
          opd_expr = ParenExpr (Name ''x'')\<rparr>, set_used Checker_x 0 True)"
    by (simp add: Env0_def check_expr0_def Checker_x_def Checker0_def)
  have h6: "opd_expr x = ParenExpr (Name ''x'')" using h5 e by auto
  have u: "\<not> var_used (store Checker_x 0)" by (simp add: Checker_x_def Checker0_def)
  have "var_used (store (snd (lhsVar Env0 Checker_x (ParenExpr (Name ''x'')))) 0) =
        var_used (store Checker_x 0)"
    by (rule lhsVar_restores_used[OF h1 h2 h3 h4 h5 h6, THEN conjunct1])
  then show ?thesis using h1 h3 h4 u e by (simp add: store_set_used)
qed

subsection \<open>Short variable declarations\<close>

lemma scope_errorf: "scope (errorf E check at c format args) = scope check"
  by (simp add: errorf_def check_error_def report_def)

lemma scope_recordUse: "scope (recordUse check e obj) = scope check"
  by (simp add: recordUse_def)

lemma scope_recordDef: "scope (recordDef check e obj) = scope check"
  by (simp add: recordDef_def)

lemma scope_NewVar: "scope (snd (NewVar check pos p name t)) = scope check"
  by (simp add: NewVar_def)

lemma nonblank_names_Nil: "nonblank_names [] = []"
  by (simp add: nonblank_names_def)

lemma nonblank_names_Cons:
  "nonblank_names (e # es) =
     (case e of Name n \<Rightarrow> (if n \<noteq> ''_'' then [n] else []) | _ \<Rightarrow> []) @ nonblank_names es"
  by (simp add: nonblank_names_def)

text \<open>One round of the collecting loop.\<close>

lemma collect_step_inv:
  assumes frame: "\<And>c es. scope (use E c es) = scope c"
    and step: "collect_step E (seen0, lv0, nv0, he0, c0) e = (seen1, lv1, nv1, he1, c1)"
  shows "scope c1 = scope c0"
    and "seen1 = seen0 \<union> set (nonblank_names [e])"
    and "(nv1 \<noteq> []) = (nv0 \<noteq> [] \<or> is_new_name seen0 (scope c0) e)"
    and "he1 = (he0 \<or> \<not> isName e \<or> (\<exists>n \<in> set (nonblank_names [e]). n \<in> seen0) \<or>
                binds_non_var (scope c0) e)"
proof -
  show "scope c1 = scope c0"
    using step frame
    by (cases e)
       (auto simp: collect_step_def Let_def scope_errorf scope_recordUse scope_recordDef NewVar_def
          split: if_splits option.splits Object.splits prod.splits)
  show "seen1 = seen0 \<union> set (nonblank_names [e])"
    using step
    by (cases e)
       (auto simp: collect_step_def Let_def nonblank_names_def NewVar_def
          split: if_splits option.splits Object.splits prod.splits)
  show "(nv1 \<noteq> []) = (nv0 \<noteq> [] \<or> is_new_name seen0 (scope c0) e)"
    using step
    by (cases e)
       (auto simp: collect_step_def Let_def is_new_name_def NewVar_def
          split: if_splits option.splits Object.splits prod.splits)
  show "he1 = (he0 \<or> \<not> isName e \<or> (\<exists>n \<in> set (nonblank_names [e]). n \<in> seen0) \<or>
                binds_non_var (scope c0) e)"
    using step
    by (cases e)
       (auto simp: collect_step_def Let_def isName_def binds_non_var_def nonblank_names_def NewVar_def
          split: if_splits option.splits Object.splits prod.splits)
qed


lemma is_new_name_seen:
  "(is_new_name seen0 sc e \<or> list_ex (is_new_name (seen0 \<union> set (nonblank_names [e])) sc) es) =
   (is_new_name seen0 sc e \<or> list_ex (is_new_name seen0 sc) es)"
  by (cases e)
     (auto simp: is_new_name_def nonblank_names_def list_ex_iff split: Expr.splits)

text \<open>The whole loop, from any state.\<close>

lemma collect_fold_inv:
  assumes frame: "\<And>c es. scope (use E c es) = scope c"
  shows "foldl (collect_step E) (seen0, lv0, nv0, he0, c0) lhs = (seen, lv, nv, he, c) \<Longrightarrow>
         scope c = scope c0 \<and>
         (nv \<noteq> []) = (nv0 \<noteq> [] \<or> list_ex (is_new_name seen0 (scope c0)) lhs) \<and>
         he = (he0 \<or> list_ex (\<lambda>e. \<not> isName e) lhs \<or> \<not> distinct (nonblank_names lhs) \<or>
               (\<exists>n \<in> set (nonblank_names lhs). n \<in> seen0) \<or>
               list_ex (binds_non_var (scope c0)) lhs)"
proof (induction lhs arbitrary: seen0 lv0 nv0 he0 c0)
  case Nil
  then show ?case by (simp add: nonblank_names_Nil)
next
  case (Cons e es)
  obtain seen1 lv1 nv1 he1 c1
    where s1: "collect_step E (seen0, lv0, nv0, he0, c0) e = (seen1, lv1, nv1, he1, c1)"
    by (metis prod_cases5)
  note st = collect_step_inv[OF frame s1]
  have "foldl (collect_step E) (seen1, lv1, nv1, he1, c1) es = (seen, lv, nv, he, c)"
    using Cons.prems s1 by simp
  from Cons.IH[OF this]
  have sc: "scope c = scope c1"
    and nv: "(nv \<noteq> []) = (nv1 \<noteq> [] \<or> list_ex (is_new_name seen1 (scope c1)) es)"
    and he: "he = (he1 \<or> list_ex (\<lambda>e. \<not> isName e) es \<or> \<not> distinct (nonblank_names es) \<or>
               (\<exists>n \<in> set (nonblank_names es). n \<in> seen1) \<or>
               list_ex (binds_non_var (scope c1)) es)"
    by blast+
  have a: "scope c = scope c0" using sc st(1) by simp
  have b: "(nv \<noteq> []) = (nv0 \<noteq> [] \<or> list_ex (is_new_name seen0 (scope c0)) (e # es))"
    using nv st(1,2,3) is_new_name_seen[of seen0 "scope c0" e es] by auto
  have nb: "nonblank_names (e # es) = nonblank_names [e] @ nonblank_names es"
    by (simp add: nonblank_names_def)
  have d1: "distinct (nonblank_names [e])"
    by (cases e) (auto simp: nonblank_names_def)
  have d: "he = (he0 \<or> list_ex (\<lambda>e. \<not> isName e) (e # es) \<or> \<not> distinct (nonblank_names (e # es)) \<or>
               (\<exists>n \<in> set (nonblank_names (e # es)). n \<in> seen0) \<or>
               list_ex (binds_non_var (scope c0)) (e # es))"
    unfolding he st(1) st(2) st(4) nb using d1 by auto
  from a b d show ?case by blast
qed

lemma collect_lhs_inv:
  assumes frame: "\<And>c es. scope (use E c es) = scope c"
    and "collect_lhs E check lhs = (seen, lv, nv, he, c)"
  shows "(nv \<noteq> []) = introduces_new (scope check) lhs" and "he = lhs_error (scope check) lhs"
  using collect_fold_inv[OF frame, of "{}" "[]" "[]" False check lhs seen lv nv he c] assms(2)
  by (simp_all add: collect_lhs_def introduces_new_def lhs_error_def)

text \<open>
  \<^verbatim>\<open>initVars\<close> returns when the right-hand side is not empty and the evaluator
  announces a comma-ok pair only when asked for one, with two operands.
\<close>

lemma initVars_returns:
  assumes contract: "\<And>c es b r c'. exprList E c es b = ((r, True), c') \<Longrightarrow> b \<and> length r = 2"
    and "orig_rhs \<noteq> []"
  shows "\<exists>check'. initVars E check0 lhs orig_rhs None = Inr check'"
proof -
  obtain rhs commaOk check
    where ev: "exprList E check0 orig_rhs (length lhs = 2 \<and> (None::Stmt option) = None) = ((rhs, commaOk), check)"
    by (metis prod.exhaust)
  show ?thesis
  proof (cases "length lhs \<noteq> length rhs")
    case True
    obtain check' where "assignError E (invalidate_lhs check lhs) orig_rhs (length lhs) (length rhs) = Inr check'"
      using assignError_errors[OF assms(2)] by blast
    then show ?thesis using initVars_mismatch[OF ev True] by simp
  next
    case False
    show ?thesis
    proof (cases commaOk)
      case True
      with contract[of check0 orig_rhs _ rhs check] ev
      have "length lhs = 2" "length rhs = 2" by auto
      then obtain l0 l1 r0 r1 where "lhs = [l0, l1]" "rhs = [r0, r1]"
        by (auto simp: length_Suc_conv numeral_2_eq_2)
      moreover obtain e0 es where "orig_rhs = e0 # es" using assms(2) by (cases orig_rhs) auto
      ultimately show ?thesis using ev True
        by (simp add: initVars_def Let_def split: prod.split)
    next
      case F: False
      then show ?thesis using ev False
        by (simp add: initVars_def split: prod.split)
    qed
  qed
qed


lemma scope_set_used: "scope (set_used check a b) = scope check"
  by (simp add: set_used_def)

lemma scope_check_expr0: "scope (snd (check_expr0 check e)) = scope check"
  by (simp add: check_expr0_def scope_set_used split: Expr.split option.split Object.split)

lemma scope_exprs0: "scope (snd (exprs0 check es)) = scope check"
proof (induction es arbitrary: check)
  case Nil
  then show ?case by simp
next
  case (Cons e es)
  obtain x c1 where e: "check_expr0 check e = (x, c1)" by (cases "check_expr0 check e") auto
  obtain xs c2 where es: "exprs0 c1 es = (xs, c2)" by (cases "exprs0 c1 es") auto
  have "scope c1 = scope check" using scope_check_expr0[of check e] e by simp
  moreover have "scope c2 = scope c1" using Cons.IH[of c1] es by simp
  ultimately show ?case using e es by simp
qed

text \<open>
  Claim C9. Provided the evaluation of a non-name on the left leaves the bindings of the
  scope as they are, and the right-hand side is not empty, \<^verbatim>\<open>shortVarDecl\<close> returns.
  Some new variable is allocated exactly when some identifier other than the blank one
  is not bound in the scope, and an error of the left-hand processing was flagged
  exactly when the list has a non-name, a repeated identifier or an identifier bound to
  something that is not a variable. The soft error \<^verbatim>\<open>NoNewVar\<close> is reported (last,
  after the deferred actions) when no variable is new and no such error occurred;
  otherwise it is not reported and the new variables are declared.
\<close>

theorem shortVarDecl_no_new_variables:
  assumes "\<forall>c es. scope (use E c es) = scope c"
    and "\<forall>c es b r c'. exprList E c es b = ((r, True), c') \<longrightarrow> b \<and> length r = 2"
    and "rhs \<noteq> []"
  shows "\<exists>newVars hasErr check4.
           shortVarDecl_rhs E check lhs rhs = Inr (newVars, hasErr, check4) \<and>
           (newVars \<noteq> []) = introduces_new (scope check) lhs \<and>
           hasErr = lhs_error (scope check) lhs \<and>
           shortVarDecl E check pos lhs rhs =
             Inr (if \<not> introduces_new (scope check) lhs \<and> \<not> lhs_error (scope check) lhs
                  then softErrorf E check4 (At_Pos pos) NoNewVar
                         ''no new variables on left side of :='' []
                  else foldl (\<lambda>c obj. declare_obj E c obj (EndPos (last rhs))) check4 newVars)"
proof -
  obtain seen lv nv he c1 where cl: "collect_lhs E check lhs = (seen, lv, nv, he, c1)"
    by (metis prod_cases5)
  obtain lhsVars c2 where fd: "fill_dummies c1 lhs lv = (lhsVars, c2)"
    by (cases "fill_dummies c1 lhs lv") auto
  have "\<exists>c3. initVars E c2 lhsVars rhs None = Inr c3"
  proof (rule initVars_returns)
    show "\<And>c es b r c'. exprList E c es b = ((r, True), c') \<Longrightarrow> b \<and> length r = 2"
      using assms(2) by blast
    show "rhs \<noteq> []" by (rule assms(3))
  qed
  then obtain c3 where iv: "initVars E c2 lhsVars rhs None = Inr c3" by blast
  let ?c4 = "processDelayed E c3 (length (delayed check))"
  have r: "shortVarDecl_rhs E check lhs rhs = Inr (nv, he, ?c4)"
    using cl fd iv by (simp add: shortVarDecl_rhs_def)
  have frame: "\<And>c es. scope (use E c es) = scope c" using assms(1) by blast
  note inv = collect_lhs_inv[OF frame cl]
  have "shortVarDecl E check pos lhs rhs =
             Inr (if \<not> introduces_new (scope check) lhs \<and> \<not> lhs_error (scope check) lhs
                  then softErrorf E ?c4 (At_Pos pos) NoNewVar
                         ''no new variables on left side of :='' []
                  else foldl (\<lambda>c obj. declare_obj E c obj (EndPos (last rhs))) ?c4 nv)"
    using r inv assms(3) by (auto simp: shortVarDecl_def)
  with r inv show ?thesis by blast
qed


theorem shortVarDecl_no_new_variables_witness:
  "introduces_new (scope Checker_x) [Name ''x'', Name ''z''] \<and>
   \<not> introduces_new (scope Checker_x) [Name ''x''] \<and>
   \<not> lhs_error (scope Checker_x) [Name ''x''] \<and>
   (\<exists>check4. shortVarDecl Env0 Checker_x nopos [Name ''x''] [BasicLit ''b''] =
       Inr (softErrorf Env0 check4 (At_Pos nopos) NoNewVar
              ''no new variables on left side of :='' [])) \<and>
   (\<exists>check4 newVars. newVars \<noteq> [] \<and>
       shortVarDecl Env0 Checker_x nopos [Name ''x'', Name ''z''] [BasicLit ''c'', BasicLit ''d''] =
       Inr (foldl (\<lambda>c obj. declare_obj Env0 c obj (EndPos (last [BasicLit ''c'', BasicLit ''d''])))
              check4 newVars)) \<and>
   (case shortVarDecl Env0 Checker_x nopos [Name ''x''] [BasicLit ''b''] of
      Inr c \<Rightarrow> map err_code (errors c) = [NoNewVar]
    | Inl p \<Rightarrow> False) \<and>
   (case shortVarDecl Env0 Checker_x nopos [Name ''x'', Name ''z''] [BasicLit ''c'', BasicLit ''d''] of
      Inr c \<Rightarrow> errors c = [] \<and> scope c ''z'' = Some (VarObj 1) \<and> scope c ''x'' = Some (VarObj 0)
    | Inl p \<Rightarrow> False)"
proof -
  have h1: "\<forall>c es. scope (use Env0 c es) = scope c"
    by (simp add: Env0_def scope_exprs0)
  have h2: "\<forall>c es b r c'. exprList Env0 c es b = ((r, True), c') \<longrightarrow> b \<and> length r = 2"
    by (simp add: Env0_def split: prod.splits)
  have n1: "\<not> introduces_new (scope Checker_x) [Name ''x'']"
    by (simp add: introduces_new_def is_new_name_def Checker_x_def Checker0_def)
  have e1: "\<not> lhs_error (scope Checker_x) [Name ''x'']"
    by (simp add: lhs_error_def isName_def binds_non_var_def nonblank_names_def Checker_x_def
        Checker0_def)
  have n2: "introduces_new (scope Checker_x) [Name ''x'', Name ''z'']"
    by (simp add: introduces_new_def is_new_name_def Checker_x_def Checker0_def)
  have r1: "[BasicLit ''b''] \<noteq> []" by simp
  have r2: "[BasicLit ''c'', BasicLit ''d''] \<noteq> []" by simp
  from shortVarDecl_no_new_variables[OF h1 h2 r1, where check = Checker_x and lhs = "[Name ''x'']"
      and pos = nopos] n1 e1
  have a: "\<exists>check4. shortVarDecl Env0 Checker_x nopos [Name ''x''] [BasicLit ''b''] =
       Inr (softErrorf Env0 check4 (At_Pos nopos) NoNewVar
              ''no new variables on left side of :='' [])"
    by auto
  from shortVarDecl_no_new_variables[OF h1 h2 r2, where check = Checker_x
      and lhs = "[Name ''x'', Name ''z'']" and pos = nopos] n2
  have b: "\<exists>check4 newVars. newVars \<noteq> [] \<and>
       shortVarDecl Env0 Checker_x nopos [Name ''x'', Name ''z''] [BasicLit ''c'', BasicLit ''d''] =
       Inr (foldl (\<lambda>c obj. declare_obj Env0 c obj (EndPos (last [BasicLit ''c'', BasicLit ''d''])))
              check4 newVars)"
    by auto
  have c: "(case shortVarDecl Env0 Checker_x nopos [Name ''x''] [BasicLit ''b''] of
      Inr c \<Rightarrow> map err_code (errors c) = [NoNewVar]
    | Inl p \<Rightarrow> False)"
    by code_simp
  have d: "(case shortVarDecl Env0 Checker_x nopos [Name ''x'', Name ''z''] [BasicLit ''c'', BasicLit ''d''] of
      Inr c \<Rightarrow> errors c = [] \<and> scope c ''z'' = Some (VarObj 1) \<and> scope c ''x'' = Some (VarObj 0)
    | Inl p \<Rightarrow> False)"
    by code_simp
  from n1 e1 n2 a b c d show ?thesis by blast
qed

end
